theory Spec2Isabelle
  imports Main "HOL-Library.Word" "HOL-Library.AList"
begin

section \<open>Data model of the GGUF parser (file.go)\<close>

text \<open>
  The element-type tags of tensors. \<open>GGMLType\<close> (a \<open>uint32\<close> with named constants) is
  declared in another file of the package; the constructors below are the constants that
  file.go and the file-type inference name. They are pairwise different in Go, since they
  are the cases of one \<open>switch\<close>. Every other tag is \<open>GGMLTypeOther\<close> with its number.
\<close>

datatype GGMLType =
    GGMLTypeF32 | GGMLTypeF16
  | GGMLTypeQ4_0 | GGMLTypeQ4_1 | GGMLTypeQ4_2 | GGMLTypeQ4_3
  | GGMLTypeQ5_0 | GGMLTypeQ5_1 | GGMLTypeQ8_0
  | GGMLTypeQ2_K | GGMLTypeQ3_K | GGMLTypeQ4_K | GGMLTypeQ5_K | GGMLTypeQ6_K
  | GGMLTypeIQ2_XXS | GGMLTypeIQ2_XS | GGMLTypeIQ3_XXS | GGMLTypeIQ1_S
  | GGMLTypeIQ4_NL | GGMLTypeIQ3_S | GGMLTypeIQ2_S | GGMLTypeIQ4_XS | GGMLTypeIQ1_M
  | GGMLTypeBF16
  | GGMLTypeOther nat

text \<open>
  The block trait of an element type: \<open>Trait()\<close> is declared in another file of the package,
  so the functions that use it take it as the parameter \<open>trait\<close>; \<open>None\<close> is its
  \<open>ok = false\<close>.
\<close>

record GGMLTypeTrait =
  BlockSize :: "64 word"
  TypeSize :: "64 word"

record GGUFTensorInfo =
  Name :: string
  NDimensions :: "32 word"
  Dimensions :: "64 word list"
  Type :: GGMLType
  Offset :: "64 word"
  StartOffset :: int

type_synonym GGUFTensorInfos = "GGUFTensorInfo list"

text \<open>A Go \<open>map[string]GGUFTensorInfo\<close>, as an association list with one entry for each key.\<close>

type_synonym infos_map = "(string \<times> GGUFTensorInfo) list"

section \<open>Tensor size calculator\<close>

text \<open>
  \<open>GGUFTensorInfo.Elements\<close>. The result is a \<open>uint64\<close>, so the product wraps around.
  Reading \<open>Dimensions[i]\<close> beyond the slice panics: the result is \<open>None\<close> then.
\<close>

definition GGUFTensorInfo_Elements :: "GGUFTensorInfo \<Rightarrow> 64 word option" where
  "GGUFTensorInfo_Elements ti =
     (if NDimensions ti = 0 then Some 0
      else fold (\<lambda>i r. case r of None \<Rightarrow> None
                      | Some ret \<Rightarrow>
                          if i < length (Dimensions ti) then Some (ret * Dimensions ti ! i)
                          else None)
             [0..<unat (NDimensions ti)] (Some 1))"

text \<open>The stride table \<open>nb\<close> of \<open>GGUFTensorInfo.Bytes\<close>, and its two summation loops.\<close>

definition strides :: "GGMLTypeTrait \<Rightarrow> 64 word list \<Rightarrow> nat \<Rightarrow> 64 word list option" where
  "strides tt ds n =
     (case ds of
        [] \<Rightarrow> None
      | d0 # _ \<Rightarrow>
          if BlockSize tt = 0 then None
          else fold (\<lambda>i r. case r of None \<Rightarrow> None
                          | Some nb \<Rightarrow>
                              if i - 1 < length ds then Some (nb @ [nb ! (i - 1) * ds ! (i - 1)])
                              else None)
                 [2..<n] (Some [TypeSize tt, TypeSize tt * (d0 div BlockSize tt)]))"

definition add_strided ::
  "64 word list \<Rightarrow> 64 word list \<Rightarrow> nat \<Rightarrow> nat \<Rightarrow> 64 word \<Rightarrow> 64 word option" where
  "add_strided ds nb k n ret0 =
     fold (\<lambda>i r. case r of None \<Rightarrow> None
                | Some ret \<Rightarrow>
                    if i < length ds \<and> i < length nb then Some (ret + (ds ! i - 1) * nb ! i)
                    else None)
       [k..<n] (Some ret0)"

definition GGUFTensorInfo_Bytes ::
  "(GGMLType \<Rightarrow> GGMLTypeTrait option) \<Rightarrow> GGUFTensorInfo \<Rightarrow> 64 word option" where
  "GGUFTensorInfo_Bytes trait ti =
     (if NDimensions ti = 0 then Some 0
      else case trait (Type ti) of
        None \<Rightarrow> None
      | Some tt \<Rightarrow>
          (case strides tt (Dimensions ti) (unat (NDimensions ti)) of
             None \<Rightarrow> None
           | Some nb \<Rightarrow>
               if BlockSize tt = 1
               then add_strided (Dimensions ti) nb 0 (unat (NDimensions ti)) (TypeSize tt)
               else add_strided (Dimensions ti) nb 1 (unat (NDimensions ti))
                      ((Dimensions ti ! 0 * nb ! 0) div BlockSize tt)))"

definition GGUFTensorInfo_Count :: "GGUFTensorInfo \<Rightarrow> 64 word" where
  "GGUFTensorInfo_Count ti = 1"

section \<open>Bulk lookup by names\<close>

text \<open>\<open>GGUFTensorInfo.Index\<close>: only \<open>names[0]\<close> is compared. The \<open>nil\<close> map is the empty one.\<close>

definition GGUFTensorInfo_Index :: "GGUFTensorInfo \<Rightarrow> string list \<Rightarrow> infos_map \<times> int" where
  "GGUFTensorInfo_Index ti names =
     (case names of
        [] \<Rightarrow> ([], 0)
      | n0 # _ \<Rightarrow> if n0 = Name ti then ([(Name ti, ti)], 1) else ([], 0))"

text \<open>
  \<open>GGUFTensorInfos.Index\<close>: \<open>ns\<close> is the set of the names, \<open>len(ns)\<close> the number of different
  names; the loop leaves as soon as \<open>found\<close> equals it.
\<close>

fun tis_index_loop ::
  "string list \<Rightarrow> GGUFTensorInfos \<Rightarrow> infos_map \<Rightarrow> int \<Rightarrow> infos_map \<times> int" where
  "tis_index_loop names [] infos found = (infos, found)"
| "tis_index_loop names (t # tis) infos found =
     (let (infos', found') =
            (if Name t \<in> set names then (AList.update (Name t) t infos, found + 1)
             else (infos, found))
      in if found' = int (length (remdups names)) then (infos', found')
         else tis_index_loop names tis infos' found')"

definition GGUFTensorInfos_Index :: "GGUFTensorInfos \<Rightarrow> string list \<Rightarrow> infos_map \<times> int" where
  "GGUFTensorInfos_Index tis names = tis_index_loop names tis [] 0"

section \<open>Errors\<close>

text \<open>
  A Go run-time panic, and the errors that the decoder returns. The messages that wrap an
  error on its way up (\<open>read magic: ...\<close>) are left out: only the kind is kept.
  \<open>NestingTooDeep\<close> is not an error of the source: it marks the end of the depth to which the
  model follows arrays of arrays.
\<close>

datatype panic = IndexOutOfRange | InvalidTypePanic | TypeAssertion | DivideByZero

datatype error =
    IOError
  | ErrGGUFFileInvalidFormat
  | UnsupportedFormat "32 word"
  | InvalidType "32 word"
  | Panic panic
  | NestingTooDeep

section \<open>File-type inference\<close>

text \<open>\<open>GGUFFileType\<close>; the last tag is \<open>_GGUFFileTypeCount\<close>, the unknown sentinel.\<close>

datatype GGUFFileType =
    GGUFFileTypeAllF32 | GGUFFileTypeMostlyF16
  | GGUFFileTypeMostlyQ4_0 | GGUFFileTypeMostlyQ4_1 | GGUFFileTypeMostlyQ4_1_F16
  | GGUFFileTypeMostlyQ4_2 | GGUFFileTypeMostlyQ4_3
  | GGUFFileTypeMostlyQ8_0 | GGUFFileTypeMostlyQ5_0 | GGUFFileTypeMostlyQ5_1
  | GGUFFileTypeMostlyQ2_K | GGUFFileTypeMostlyQ3_K | GGUFFileTypeMostlyQ4_K
  | GGUFFileTypeMostlyQ5_K | GGUFFileTypeMostlyQ6_K
  | GGUFFileTypeMostlyIQ2_XXS | GGUFFileTypeMostlyIQ2_XS | GGUFFileTypeMostlyIQ3_XXS
  | GGUFFileTypeMostlyIQ1_S | GGUFFileTypeMostlyIQ4_NL | GGUFFileTypeMostlyIQ3_S
  | GGUFFileTypeMostlyIQ2_S | GGUFFileTypeMostlyIQ4_XS | GGUFFileTypeMostlyIQ1_M
  | GGUFFileTypeMostlyBF16
  | GGUFFileTypeCount

text \<open>
  The counting map \<open>cm\<close> of \<open>guessFileType\<close>: the element types of the tensors whose name
  starts with \<open>blk\<close>, each with its number of occurrences.
\<close>

definition blk_types :: "GGUFTensorInfos \<Rightarrow> GGMLType list" where
  "blk_types tis = map Type (filter (\<lambda>t. take 3 (Name t) = ''blk'') tis)"

definition cm :: "GGUFTensorInfos \<Rightarrow> GGMLType \<Rightarrow> nat" where
  "cm tis t = count_list (blk_types tis) t"

text \<open>
  The slice \<open>ts\<close> after \<open>sort.Slice\<close>: the keys of \<open>cm\<close>, each once, in descending order
  of their counts. Go fixes neither the order in which a map is walked nor the order in which
  \<open>sort.Slice\<close> leaves equal counts, so \<open>ranked tis ts\<close> says that \<open>ts\<close> is one of the
  possible outcomes, and \<open>sort_by_count\<close> computes one of them.
\<close>

definition ranked :: "GGUFTensorInfos \<Rightarrow> GGMLType list \<Rightarrow> bool" where
  "ranked tis ts \<longleftrightarrow>
     distinct ts \<and> set ts = set (blk_types tis) \<and> sorted_wrt (\<lambda>a b. cm tis b \<le> cm tis a) ts"

definition sort_by_count :: "GGUFTensorInfos \<Rightarrow> GGMLType list" where
  "sort_by_count tis = sort_key (\<lambda>t. - int (cm tis t)) (remdups (blk_types tis))"

text \<open>
  The \<open>switch\<close> of \<open>guessFileType\<close> on the ranked types. \<open>ts[1]\<close> is read with no check
  of the length in the \<open>Q3_K\<close> case; \<open>ts[2]\<close> is read behind \<open>len(ts) > 2\<close>.
\<close>

definition fileTypeOfRanking :: "GGMLType list \<Rightarrow> error + GGUFFileType" where
  "fileTypeOfRanking ts =
     (case ts of
        [] \<Rightarrow> Inr GGUFFileTypeCount
      | t0 # rest \<Rightarrow>
         (case t0 of
            GGMLTypeF32 \<Rightarrow> Inr GGUFFileTypeAllF32
          | GGMLTypeF16 \<Rightarrow> Inr GGUFFileTypeMostlyF16
          | GGMLTypeQ4_0 \<Rightarrow> Inr GGUFFileTypeMostlyQ4_0
          | GGMLTypeQ4_1 \<Rightarrow> Inr GGUFFileTypeMostlyQ4_1
          | GGMLTypeQ4_2 \<Rightarrow> Inr GGUFFileTypeMostlyQ4_2
          | GGMLTypeQ4_3 \<Rightarrow> Inr GGUFFileTypeMostlyQ4_3
          | GGMLTypeQ5_0 \<Rightarrow> Inr GGUFFileTypeMostlyQ5_0
          | GGMLTypeQ5_1 \<Rightarrow> Inr GGUFFileTypeMostlyQ5_1
          | GGMLTypeQ8_0 \<Rightarrow> Inr GGUFFileTypeMostlyQ8_0
          | GGMLTypeQ2_K \<Rightarrow> Inr GGUFFileTypeMostlyQ2_K
          | GGMLTypeQ3_K \<Rightarrow>
              (case rest of
                 [] \<Rightarrow> Inl (Panic IndexOutOfRange)
               | t1 # _ \<Rightarrow>
                  (case t1 of
                     GGMLTypeQ4_K \<Rightarrow> Inr GGUFFileTypeMostlyQ4_K
                   | GGMLTypeQ5_K \<Rightarrow> Inr GGUFFileTypeMostlyQ5_K
                   | _ \<Rightarrow> Inr GGUFFileTypeMostlyQ3_K))
          | GGMLTypeQ4_K \<Rightarrow>
              if 2 < length ts \<and> ts ! 2 = GGMLTypeQ6_K then Inr GGUFFileTypeMostlyIQ2_XXS
              else Inr GGUFFileTypeMostlyQ6_K
          | GGMLTypeQ5_K \<Rightarrow>
              if 2 < length ts \<and> ts ! 2 = GGMLTypeQ6_K then Inr GGUFFileTypeMostlyIQ3_XXS
              else Inr GGUFFileTypeMostlyIQ2_XS
          | GGMLTypeQ6_K \<Rightarrow> Inr GGUFFileTypeMostlyIQ1_S
          | GGMLTypeIQ2_XXS \<Rightarrow> Inr GGUFFileTypeMostlyIQ2_XXS
          | GGMLTypeIQ2_XS \<Rightarrow> Inr GGUFFileTypeMostlyIQ2_XS
          | GGMLTypeIQ3_XXS \<Rightarrow> Inr GGUFFileTypeMostlyIQ3_XXS
          | GGMLTypeIQ1_S \<Rightarrow> Inr GGUFFileTypeMostlyIQ1_S
          | GGMLTypeIQ4_NL \<Rightarrow> Inr GGUFFileTypeMostlyIQ4_NL
          | GGMLTypeIQ3_S \<Rightarrow> Inr GGUFFileTypeMostlyIQ3_S
          | GGMLTypeIQ2_S \<Rightarrow> Inr GGUFFileTypeMostlyIQ2_S
          | GGMLTypeIQ4_XS \<Rightarrow> Inr GGUFFileTypeMostlyIQ4_XS
          | GGMLTypeIQ1_M \<Rightarrow> Inr GGUFFileTypeMostlyIQ1_M
          | GGMLTypeBF16 \<Rightarrow> Inr GGUFFileTypeMostlyBF16
          | GGMLTypeOther _ \<Rightarrow> Inr GGUFFileTypeCount))"

text \<open>
  \<open>guessFileType\<close>, for the outcome \<open>ts\<close> of the sort, and for the outcome that
  \<open>sort_by_count\<close> computes.
\<close>

definition guessFileType_ranked :: "GGUFTensorInfos \<Rightarrow> GGMLType list \<Rightarrow> error + GGUFFileType" where
  "guessFileType_ranked tis ts = (if tis = [] then Inr GGUFFileTypeCount else fileTypeOfRanking ts)"

definition guessFileType :: "GGUFTensorInfos \<Rightarrow> error + GGUFFileType" where
  "guessFileType tis = guessFileType_ranked tis (sort_by_count tis)"

section \<open>Layer hierarchy\<close>

text \<open>
  An item of a \<open>GGUFLayerTensorInfos\<close> is an \<open>IGGUFTensorInfos\<close>: \<open>layers\<close> stores either a
  \<open>GGUFTensorInfo\<close> (a leaf) or a pointer to a \<open>GGUFNamedTensorInfos\<close> (a name and the items
  below it).
\<close>

datatype LayerNode = LeafTensorInfo GGUFTensorInfo | NamedTensorInfos string "LayerNode list"

type_synonym GGUFLayerTensorInfos = "LayerNode list"

text \<open>\<open>strings.Split(s, ".")\<close> and \<open>strings.Join(parts, ".")\<close>.\<close>

fun split_dot :: "string \<Rightarrow> string list" where
  "split_dot [] = [[]]"
| "split_dot (c # cs) =
     (if c = CHR ''.'' then [] # split_dot cs
      else case split_dot cs of [] \<Rightarrow> [[c]] | p # ps \<Rightarrow> (c # p) # ps)"

fun join_dot :: "string list \<Rightarrow> string" where
  "join_dot [] = []"
| "join_dot [x] = x"
| "join_dot (x # y # ys) = x @ ''.'' @ join_dot (y # ys)"

text \<open>
  \<open>layers\<close> keeps in the map \<open>pm\<close> a pointer to every \<open>GGUFNamedTensorInfos\<close> it has made,
  and appends to the node behind the pointer. Every node is appended to one list when it is
  made (\<open>ret\<close>, or the items of the encoder or decoder node), and lists only grow at the end,
  so a pointer is modelled by the position of the node: the indices that lead to it from
  \<open>ret\<close>. \<open>append_at p x items\<close> appends \<open>x\<close> to the items of the node at \<open>p\<close> (to \<open>items\<close>
  itself for the empty path); \<open>children_at p items\<close> reads the items of that node.
\<close>

type_synonym node_ptr = "nat list"

fun append_at :: "node_ptr \<Rightarrow> LayerNode \<Rightarrow> LayerNode list \<Rightarrow> LayerNode list" where
  "append_at [] x items = items @ [x]"
| "append_at (i # p) x items =
     (if i < length items
      then (case items ! i of
              NamedTensorInfos n cs \<Rightarrow> items[i := NamedTensorInfos n (append_at p x cs)]
            | LeafTensorInfo ti \<Rightarrow> items)
      else items)"

fun children_at :: "node_ptr \<Rightarrow> LayerNode list \<Rightarrow> LayerNode list" where
  "children_at [] items = items"
| "children_at (i # p) items =
     (if i < length items
      then (case items ! i of
              NamedTensorInfos n cs \<Rightarrow> children_at p cs
            | LeafTensorInfo ti \<Rightarrow> [])
      else [])"

text \<open>
  The body of the loop of \<open>layers\<close> for one tensor, on the state \<open>(ret, pm)\<close>. The cases
  are tried in the order of the \<open>switch\<close>: \<open>blk\<close>, then \<open>decoder\<close> or \<open>encoder\<close>, then
  \<open>default\<close>.
\<close>

definition layers_step ::
  "GGUFTensorInfo \<Rightarrow> LayerNode list \<times> (string \<rightharpoonup> node_ptr) \<Rightarrow>
   LayerNode list \<times> (string \<rightharpoonup> node_ptr)" where
  "layers_step ti st =
     (let ret = fst st; pm = snd st; ps = split_dot (Name ti) in
      if 2 \<le> length ps \<and> ps ! 0 = ''blk'' then
        (let p = join_dot [ps ! 0, ps ! 1] in
         case pm p of
           None \<Rightarrow>
             (let l = [length ret] in
              (append_at l (LeafTensorInfo ti) (ret @ [NamedTensorInfos p []]), pm(p \<mapsto> l)))
         | Some l \<Rightarrow> (append_at l (LeafTensorInfo ti) ret, pm))
      else if 3 \<le> length ps \<and> (ps ! 0 = ''decoder'' \<or> ps ! 0 = ''encoder'') then
        (let p = ps ! 0;
             (ret1, pm1, xl) =
               (case pm p of
                  None \<Rightarrow> (ret @ [NamedTensorInfos p []], pm(p \<mapsto> [length ret]), [length ret])
                | Some xl \<Rightarrow> (ret, pm, xl))
         in if ps ! 1 \<noteq> ''block'' then (append_at xl (LeafTensorInfo ti) ret1, pm1)
            else
              (let p2 = join_dot [ps ! 0, ps ! 1, ps ! 2] in
               case pm1 p2 of
                 None \<Rightarrow>
                   (let l = xl @ [length (children_at xl ret1)] in
                    (append_at l (LeafTensorInfo ti) (append_at xl (NamedTensorInfos p2 []) ret1),
                     pm1(p2 \<mapsto> l)))
               | Some l \<Rightarrow> (append_at l (LeafTensorInfo ti) ret1, pm1)))
      else (ret @ [LeafTensorInfo ti], pm))"

definition layers :: "GGUFTensorInfos \<Rightarrow> GGUFLayerTensorInfos" where
  "layers tis = fst (fold layers_step tis ([], Map.empty))"

text \<open>
  The totals. Each is the loop \<open>ret += x.Elements()\<close> (or \<open>Bytes\<close>, or \<open>Count\<close>) from
  \<open>ret = 0\<close>; a panic of one summand (\<open>None\<close>) ends it. \<open>sum_loop\<close> is the loop over a
  flat list. On the tree the call \<open>ltis[i].Elements()\<close> goes to the leaf's method or, for a
  \<open>GGUFNamedTensorInfos\<close>, to the same loop over its items: \<open>node_total f\<close> and
  \<open>list_total f\<close>, where \<open>f\<close> is the leaf's method.
\<close>

fun sum_loop :: "('a \<Rightarrow> 64 word option) \<Rightarrow> 'a list \<Rightarrow> 64 word \<Rightarrow> 64 word option" where
  "sum_loop f [] ret = Some ret"
| "sum_loop f (x # xs) ret =
     (case f x of None \<Rightarrow> None | Some v \<Rightarrow> sum_loop f xs (ret + v))"

fun node_total :: "(GGUFTensorInfo \<Rightarrow> 64 word option) \<Rightarrow> LayerNode \<Rightarrow> 64 word option"
  and list_total ::
    "(GGUFTensorInfo \<Rightarrow> 64 word option) \<Rightarrow> LayerNode list \<Rightarrow> 64 word \<Rightarrow> 64 word option"
  where
  "node_total f (LeafTensorInfo ti) = f ti"
| "node_total f (NamedTensorInfos n cs) = list_total f cs 0"
| "list_total f [] ret = Some ret"
| "list_total f (x # xs) ret =
     (case node_total f x of None \<Rightarrow> None | Some v \<Rightarrow> list_total f xs (ret + v))"

definition GGUFTensorInfos_Elements :: "GGUFTensorInfos \<Rightarrow> 64 word option" where
  "GGUFTensorInfos_Elements tis = sum_loop GGUFTensorInfo_Elements tis 0"

fun node_Count :: "LayerNode \<Rightarrow> 64 word"
  and list_Count :: "LayerNode list \<Rightarrow> 64 word \<Rightarrow> 64 word" where
  "node_Count (LeafTensorInfo ti) = GGUFTensorInfo_Count ti"
| "node_Count (NamedTensorInfos n cs) = list_Count cs 0"
| "list_Count [] ret = ret"
| "list_Count (x # xs) ret = list_Count xs (ret + node_Count x)"

definition GGUFTensorInfos_Bytes ::
  "(GGMLType \<Rightarrow> GGMLTypeTrait option) \<Rightarrow> GGUFTensorInfos \<Rightarrow> 64 word option" where
  "GGUFTensorInfos_Bytes trait tis = sum_loop (GGUFTensorInfo_Bytes trait) tis 0"

definition GGUFTensorInfos_Count :: "GGUFTensorInfos \<Rightarrow> 64 word" where
  "GGUFTensorInfos_Count tis = of_nat (length tis)"

definition GGUFLayerTensorInfos_Elements :: "GGUFLayerTensorInfos \<Rightarrow> 64 word option" where
  "GGUFLayerTensorInfos_Elements ltis = list_total GGUFTensorInfo_Elements ltis 0"

definition GGUFLayerTensorInfos_Bytes ::
  "(GGMLType \<Rightarrow> GGMLTypeTrait option) \<Rightarrow> GGUFLayerTensorInfos \<Rightarrow> 64 word option" where
  "GGUFLayerTensorInfos_Bytes trait ltis = list_total (GGUFTensorInfo_Bytes trait) ltis 0"

definition GGUFLayerTensorInfos_Count :: "GGUFLayerTensorInfos \<Rightarrow> 64 word" where
  "GGUFLayerTensorInfos_Count ltis = list_Count ltis 0"

text \<open>
  \<open>GGUFLayerTensorInfos.Index\<close>: a leaf is looked up in the set of the names; for a
  \<open>GGUFNamedTensorInfos\<close> the entries that its own \<open>Index\<close> finds are copied, and each
  counts.
\<close>

fun ltis_index_loop ::
  "string list \<Rightarrow> LayerNode list \<Rightarrow> infos_map \<Rightarrow> int \<Rightarrow> infos_map \<times> int" where
  "ltis_index_loop names [] infos found = (infos, found)"
| "ltis_index_loop names (x # xs) infos found =
     (let (infos', found') =
            (case x of
               LeafTensorInfo v \<Rightarrow>
                 if Name v \<in> set names then (AList.update (Name v) v infos, found + 1)
                 else (infos, found)
             | NamedTensorInfos n cs \<Rightarrow>
                 (let inf = fst (ltis_index_loop names cs [] 0)
                  in (fold (\<lambda>(k, v). AList.update k v) inf infos, found + int (length inf))))
      in if found' = int (length (remdups names)) then (infos', found')
         else ltis_index_loop names xs infos' found')"

definition GGUFLayerTensorInfos_Index ::
  "GGUFLayerTensorInfos \<Rightarrow> string list \<Rightarrow> infos_map \<times> int" where
  "GGUFLayerTensorInfos_Index ltis names = ltis_index_loop names ltis [] 0"

section \<open>Decoder\<close>

subsection \<open>Constants and decoded data\<close>

text \<open>\<open>binary.ByteOrder\<close>, for the two orders that the decoder uses.\<close>

datatype ByteOrder = LittleEndian | BigEndian

text \<open>The bytes of the file, and the constants of file.go.\<close>

type_synonym byte = "8 word"

definition GGUFMagicGGML :: "32 word" where "GGUFMagicGGML = 0x67676d6c"
definition GGUFMagicGGMF :: "32 word" where "GGUFMagicGGMF = 0x67676d66"
definition GGUFMagicGGJT :: "32 word" where "GGUFMagicGGJT = 0x67676a74"
definition GGUFMagicGGUFLe :: "32 word" where "GGUFMagicGGUFLe = 0x46554747"
definition GGUFMagicGGUFBe :: "32 word" where "GGUFMagicGGUFBe = 0x47475546"

definition GGUFVersionV1 :: "32 word" where "GGUFVersionV1 = 1"

definition GGUFMetadataValueTypeUint8 :: "32 word" where "GGUFMetadataValueTypeUint8 = 0"
definition GGUFMetadataValueTypeInt8 :: "32 word" where "GGUFMetadataValueTypeInt8 = 1"
definition GGUFMetadataValueTypeUint16 :: "32 word" where "GGUFMetadataValueTypeUint16 = 2"
definition GGUFMetadataValueTypeInt16 :: "32 word" where "GGUFMetadataValueTypeInt16 = 3"
definition GGUFMetadataValueTypeUint32 :: "32 word" where "GGUFMetadataValueTypeUint32 = 4"
definition GGUFMetadataValueTypeInt32 :: "32 word" where "GGUFMetadataValueTypeInt32 = 5"
definition GGUFMetadataValueTypeFloat32 :: "32 word" where "GGUFMetadataValueTypeFloat32 = 6"
definition GGUFMetadataValueTypeBool :: "32 word" where "GGUFMetadataValueTypeBool = 7"
definition GGUFMetadataValueTypeString :: "32 word" where "GGUFMetadataValueTypeString = 8"
definition GGUFMetadataValueTypeArray :: "32 word" where "GGUFMetadataValueTypeArray = 9"
definition GGUFMetadataValueTypeUint64 :: "32 word" where "GGUFMetadataValueTypeUint64 = 10"
definition GGUFMetadataValueTypeInt64 :: "32 word" where "GGUFMetadataValueTypeInt64 = 11"
definition GGUFMetadataValueTypeFloat64 :: "32 word" where "GGUFMetadataValueTypeFloat64 = 12"
definition GGUFMetadataValueTypeCount :: "32 word" where "GGUFMetadataValueTypeCount = 13"

text \<open>The equations of the value-type tags, for unfolding them together.\<close>

lemmas vt_defs = GGUFMetadataValueTypeUint8_def GGUFMetadataValueTypeInt8_def
  GGUFMetadataValueTypeUint16_def GGUFMetadataValueTypeInt16_def GGUFMetadataValueTypeUint32_def
  GGUFMetadataValueTypeInt32_def GGUFMetadataValueTypeFloat32_def GGUFMetadataValueTypeBool_def
  GGUFMetadataValueTypeString_def GGUFMetadataValueTypeArray_def GGUFMetadataValueTypeUint64_def
  GGUFMetadataValueTypeInt64_def GGUFMetadataValueTypeFloat64_def GGUFMetadataValueTypeCount_def

text \<open>
  The \<open>any\<close> of \<open>GGUFMetadataKV.Value\<close>: one constructor for each Go type that \<open>ReadValue\<close>
  stores. A signed integer is kept as its bits, and so is a float; no floating-point
  arithmetic is modelled. \<open>GGUFMetadataKVArrayValue\<close> has the fields of the Go struct.
\<close>

datatype GGUFValue =
    VUint8 "8 word" | VInt8 "8 word" | VUint16 "16 word" | VInt16 "16 word"
  | VUint32 "32 word" | VInt32 "32 word" | VFloat32 "32 word" | VBool bool
  | VString string | VArray GGUFMetadataKVArrayValue
  | VUint64 "64 word" | VInt64 "64 word" | VFloat64 "64 word"
and GGUFMetadataKVArrayValue =
    ArrayValue (av_Type: "32 word") (av_Len: "64 word") (av_Array: "GGUFValue list")
      (av_StartOffset: int) (av_Size: int)

record GGUFMetadataKV =
  Key :: string
  ValueType :: "32 word"
  Value :: GGUFValue

record GGUFHeader =
  Magic :: "32 word"
  Version :: "32 word"
  TensorCount :: "64 word"
  MetadataKVCount :: "64 word"
  MetadataKV :: "GGUFMetadataKV list"

text \<open>
  \<open>GGUFFile\<close> without \<open>ModelBitsPerWeight\<close>, which is a \<open>float64\<close>. The \<open>int64\<close> fields are
  integers: they stay below \<open>2 ^ 63\<close> for every file that a file system holds.
\<close>

record GGUFFile =
  Header :: GGUFHeader
  TensorInfos :: GGUFTensorInfos
  Padding :: int
  TensorDataStartOffset :: int
  ModelSize :: "64 word"
  ModelParameters :: "64 word"

text \<open>
  \<open>_GGUFReader\<close>: the version, the one option that the reader consults, the byte source and
  the byte order. The byte source is the list of the bytes of the file; the position of its
  cursor is passed from read to read.
\<close>

record GGUFReader =
  rd_v :: "32 word"
  rd_SkipLargeMetadata :: bool
  rd_f :: "byte list"
  rd_bo :: ByteOrder

subsection \<open>Byte source\<close>

text \<open>
  A read starts at a position and gives an error, or a value and the next position.
  \<open>read_full\<close> is \<open>io.ReadFull\<close>, through which \<open>binary.Read\<close> reads: all \<open>n\<close> bytes, or an
  error. \<open>binary_Read\<close> reads an unsigned integer of \<open>n\<close> bytes in the given byte order; a
  signed integer and a float are read the same way and kept as their bits. \<open>Seek\<close> is
  \<open>f.Seek(off, io.SeekCurrent)\<close>: it fails on a negative target and may go beyond the end.
  \<open>Read_upto\<close> is \<open>f.Read(b)\<close> of an \<open>os.File\<close> for a zeroed buffer of \<open>n\<close> bytes: it fails at
  the end of the file when \<open>n\<close> is positive, and otherwise reads the bytes that are there.
\<close>

type_synonym 'a reading = "nat \<Rightarrow> error + ('a \<times> nat)"

definition read_full :: "byte list \<Rightarrow> nat \<Rightarrow> byte list reading" where
  "read_full f n pos =
     (if pos + n \<le> length f then Inr (take n (drop pos f), pos + n) else Inl IOError)"

definition uint_of :: "ByteOrder \<Rightarrow> byte list \<Rightarrow> nat" where
  "uint_of bo bs =
     foldr (\<lambda>b acc. unat b + 256 * acc) (case bo of LittleEndian \<Rightarrow> bs | BigEndian \<Rightarrow> rev bs) 0"

definition binary_Read :: "byte list \<Rightarrow> ByteOrder \<Rightarrow> nat \<Rightarrow> 'a::len word reading" where
  "binary_Read f bo n pos =
     (case read_full f n pos of
        Inl e \<Rightarrow> Inl e
      | Inr (bs, pos') \<Rightarrow> Inr (word_of_nat (uint_of bo bs), pos'))"

definition Seek :: "int \<Rightarrow> unit reading" where
  "Seek off pos = (if int pos + off < 0 then Inl IOError else Inr ((), nat (int pos + off)))"

definition Read_upto :: "byte list \<Rightarrow> nat \<Rightarrow> byte list reading" where
  "Read_upto f n pos =
     (if 0 < n \<and> length f \<le> pos then Inl IOError
      else let got = take n (drop pos f)
           in Inr (got @ replicate (n - length got) 0, pos + length got))"

subsection \<open>Primitive reader\<close>

definition ReadUint8 :: "GGUFReader \<Rightarrow> 8 word reading" where
  "ReadUint8 rd = binary_Read (rd_f rd) (rd_bo rd) 1"
definition ReadUint16 :: "GGUFReader \<Rightarrow> 16 word reading" where
  "ReadUint16 rd = binary_Read (rd_f rd) (rd_bo rd) 2"
definition ReadUint32 :: "GGUFReader \<Rightarrow> 32 word reading" where
  "ReadUint32 rd = binary_Read (rd_f rd) (rd_bo rd) 4"
definition ReadUint64 :: "GGUFReader \<Rightarrow> 64 word reading" where
  "ReadUint64 rd = binary_Read (rd_f rd) (rd_bo rd) 8"

definition ReadUint64FromUint32 :: "GGUFReader \<Rightarrow> 64 word reading" where
  "ReadUint64FromUint32 rd pos =
     (case ReadUint32 rd pos of Inl e \<Rightarrow> Inl e | Inr (v, pos') \<Rightarrow> Inr (ucast v, pos'))"

text \<open>
  The width of a count or a length: \<open>if rd.v <= GGUFVersionV1\<close> four bytes, else eight.
  The source writes this choice out at each place.
\<close>

definition ReadLength :: "GGUFReader \<Rightarrow> 64 word reading" where
  "ReadLength rd =
     (if rd_v rd \<le> GGUFVersionV1 then ReadUint64FromUint32 rd else ReadUint64 rd)"

text \<open>
  \<open>bytes.TrimSpace\<close>: it drops from both ends the runes that \<open>unicode.IsSpace\<close> accepts, here
  in their UTF-8 encodings.
\<close>

definition space_runes :: "byte list list" where
  "space_runes =
     [[0x09], [0x0A], [0x0B], [0x0C], [0x0D], [0x20],
      [0xC2, 0x85], [0xC2, 0xA0], [0xE1, 0x9A, 0x80],
      [0xE2, 0x80, 0x80], [0xE2, 0x80, 0x81], [0xE2, 0x80, 0x82], [0xE2, 0x80, 0x83],
      [0xE2, 0x80, 0x84], [0xE2, 0x80, 0x85], [0xE2, 0x80, 0x86], [0xE2, 0x80, 0x87],
      [0xE2, 0x80, 0x88], [0xE2, 0x80, 0x89], [0xE2, 0x80, 0x8A],
      [0xE2, 0x80, 0xA8], [0xE2, 0x80, 0xA9], [0xE2, 0x80, 0xAF], [0xE2, 0x81, 0x9F],
      [0xE3, 0x80, 0x80]]"

definition space_prefix :: "byte list \<Rightarrow> nat" where
  "space_prefix bs =
     (if take 1 bs \<in> set space_runes then 1
      else if take 2 bs \<in> set space_runes then 2
      else if take 3 bs \<in> set space_runes then 3
      else 0)"

definition space_suffix :: "byte list \<Rightarrow> nat" where
  "space_suffix bs =
     (if drop (length bs - 1) bs \<in> set space_runes then 1
      else if drop (length bs - 2) bs \<in> set space_runes then 2
      else if drop (length bs - 3) bs \<in> set space_runes then 3
      else 0)"

lemma space_runes_length: "r \<in> set space_runes \<Longrightarrow> 0 < length r"
  by (auto simp: space_runes_def)

lemma space_prefix_decr: "0 < space_prefix bs \<Longrightarrow> length bs - space_prefix bs < length bs"
proof -
  assume a: "0 < space_prefix bs"
  then have "bs \<noteq> []"
    by (auto simp: space_prefix_def dest: space_runes_length split: if_splits)
  with a show ?thesis by simp
qed

lemma space_suffix_decr: "0 < space_suffix bs \<Longrightarrow> length bs - space_suffix bs < length bs"
proof -
  assume a: "0 < space_suffix bs"
  then have "bs \<noteq> []"
    by (auto simp: space_suffix_def dest: space_runes_length split: if_splits)
  with a show ?thesis by simp
qed

function trim_left :: "byte list \<Rightarrow> byte list" where
  "trim_left bs = (if space_prefix bs = 0 then bs else trim_left (drop (space_prefix bs) bs))"
  by pat_completeness auto
termination
  by (relation "measure length") (auto dest: space_prefix_decr)

function trim_right :: "byte list \<Rightarrow> byte list" where
  "trim_right bs =
     (if space_suffix bs = 0 then bs else trim_right (take (length bs - space_suffix bs) bs))"
  by pat_completeness auto
termination
  by (relation "measure length") (auto dest: space_suffix_decr)

definition TrimSpace :: "byte list \<Rightarrow> byte list" where
  "TrimSpace bs = trim_right (trim_left bs)"

definition string_of_bytes :: "byte list \<Rightarrow> string" where
  "string_of_bytes bs = map (\<lambda>b. char_of (unat b)) bs"

definition ReadString :: "GGUFReader \<Rightarrow> string reading" where
  "ReadString rd pos =
     (case ReadLength rd pos of
        Inl e \<Rightarrow> Inl e
      | Inr (l, pos1) \<Rightarrow>
          (case Read_upto (rd_f rd) (unat l) pos1 of
             Inl e \<Rightarrow> Inl e
           | Inr (b, pos2) \<Rightarrow> Inr (string_of_bytes (TrimSpace b), pos2)))"

definition SkipReadingString :: "GGUFReader \<Rightarrow> unit reading" where
  "SkipReadingString rd pos =
     (case ReadLength rd pos of
        Inl e \<Rightarrow> Inl e
      | Inr (l, pos1) \<Rightarrow> Seek (sint l) pos1)"

text \<open>A loop \<open>for i := 0; i < n; i++\<close> that reads one item in each round.\<close>

primrec read_n :: "'a reading \<Rightarrow> nat \<Rightarrow> 'a list reading" where
  "read_n r 0 pos = Inr ([], pos)"
| "read_n r (Suc n) pos =
     (case r pos of
        Inl e \<Rightarrow> Inl e
      | Inr (x, pos1) \<Rightarrow>
          (case read_n r n pos1 of
             Inl e \<Rightarrow> Inl e
           | Inr (xs, pos2) \<Rightarrow> Inr (x # xs, pos2)))"

definition rmap :: "('a \<Rightarrow> 'b) \<Rightarrow> 'a reading \<Rightarrow> 'b reading" where
  "rmap g r pos = (case r pos of Inl e \<Rightarrow> Inl e | Inr (x, pos1) \<Rightarrow> Inr (g x, pos1))"

definition ReadBool :: "GGUFReader \<Rightarrow> bool reading" where
  "ReadBool rd = rmap (\<lambda>b. b \<noteq> 0) (ReadUint8 rd)"

subsection \<open>Metadata values\<close>

text \<open>
  \<open>ReadArray\<close> and \<open>ReadValue\<close> call each other. \<open>ReadArray_with rv\<close> is the body of \<open>ReadArray\<close>
  with \<open>rv\<close> for its call of \<open>ReadValue\<close>, and \<open>ReadValue_with ra\<close> the body of \<open>ReadValue\<close> with
  \<open>ra\<close> for its call of \<open>ReadArray\<close>. The conversion \<open>int64(v.Len)\<close> is \<open>sint\<close>, and the
  products \<open>int64(v.Len) * 2\<close> wrap around. The allocation \<open>make([]any, v.Len)\<close> is not
  modelled.
\<close>

definition ReadArray_with ::
  "(32 word \<Rightarrow> GGUFValue reading) \<Rightarrow> GGUFReader \<Rightarrow> GGUFMetadataKVArrayValue reading" where
  "ReadArray_with rv rd pos =
     (case ReadUint32 rd pos of
        Inl e \<Rightarrow> Inl e
      | Inr (t, pos1) \<Rightarrow>
          (case ReadLength rd pos1 of
             Inl e \<Rightarrow> Inl e
           | Inr (n, itemStart) \<Rightarrow>
               if \<not> rd_SkipLargeMetadata rd then
                 (case read_n (rv t) (unat n) itemStart of
                    Inl e \<Rightarrow> Inl e
                  | Inr (items, itemEnd) \<Rightarrow>
                      Inr (ArrayValue t n items (int pos) (int itemEnd - int itemStart), itemEnd))
               else
                 (case
                    (if t = GGUFMetadataValueTypeUint8 \<or> t = GGUFMetadataValueTypeInt8 \<or>
                        t = GGUFMetadataValueTypeBool
                     then Seek (sint n) itemStart
                     else if t = GGUFMetadataValueTypeUint16 \<or> t = GGUFMetadataValueTypeInt16
                     then Seek (sint (n * 2)) itemStart
                     else if t = GGUFMetadataValueTypeUint32 \<or> t = GGUFMetadataValueTypeInt32 \<or>
                        t = GGUFMetadataValueTypeFloat32
                     then Seek (sint (n * 4)) itemStart
                     else if t = GGUFMetadataValueTypeUint64 \<or> t = GGUFMetadataValueTypeInt64 \<or>
                        t = GGUFMetadataValueTypeFloat64
                     then Seek (sint (n * 8)) itemStart
                     else if t = GGUFMetadataValueTypeString
                     then rmap (\<lambda>_. ()) (read_n (SkipReadingString rd) (unat n)) itemStart
                     else Inl (Panic InvalidTypePanic))
                  of
                    Inl e \<Rightarrow> Inl e
                  | Inr (u, itemEnd) \<Rightarrow>
                      Inr (ArrayValue t n [] (int pos) (int itemEnd - int itemStart), itemEnd))))"

definition ReadValue_with ::
  "GGUFMetadataKVArrayValue reading \<Rightarrow> GGUFReader \<Rightarrow> 32 word \<Rightarrow> GGUFValue reading" where
  "ReadValue_with ra rd vt =
     (if GGUFMetadataValueTypeCount \<le> vt then (\<lambda>pos. Inl (InvalidType vt))
      else if vt = GGUFMetadataValueTypeUint8 then rmap VUint8 (ReadUint8 rd)
      else if vt = GGUFMetadataValueTypeInt8 then rmap VInt8 (ReadUint8 rd)
      else if vt = GGUFMetadataValueTypeUint16 then rmap VUint16 (ReadUint16 rd)
      else if vt = GGUFMetadataValueTypeInt16 then rmap VInt16 (ReadUint16 rd)
      else if vt = GGUFMetadataValueTypeUint32 then rmap VUint32 (ReadUint32 rd)
      else if vt = GGUFMetadataValueTypeInt32 then rmap VInt32 (ReadUint32 rd)
      else if vt = GGUFMetadataValueTypeFloat32 then rmap VFloat32 (ReadUint32 rd)
      else if vt = GGUFMetadataValueTypeBool then rmap VBool (ReadBool rd)
      else if vt = GGUFMetadataValueTypeString then rmap VString (ReadString rd)
      else if vt = GGUFMetadataValueTypeArray then rmap VArray ra
      else if vt = GGUFMetadataValueTypeUint64 then rmap VUint64 (ReadUint64 rd)
      else if vt = GGUFMetadataValueTypeInt64 then rmap VInt64 (ReadUint64 rd)
      else if vt = GGUFMetadataValueTypeFloat64 then rmap VFloat64 (ReadUint64 rd)
      else (\<lambda>pos. Inl (Panic InvalidTypePanic)))"

text \<open>
  \<open>ReadValue_depth d\<close> reads values whose arrays are nested at most \<open>d\<close> deep, and gives
  \<open>NestingTooDeep\<close> beyond. Every array costs at least eight bytes of the file, so the
  length of the file bounds the depth: \<open>ReadValue\<close> and \<open>ReadArray\<close> are the functions of the
  source.
\<close>

primrec ReadValue_depth :: "nat \<Rightarrow> GGUFReader \<Rightarrow> 32 word \<Rightarrow> GGUFValue reading" where
  "ReadValue_depth 0 rd = ReadValue_with (\<lambda>pos. Inl NestingTooDeep) rd"
| "ReadValue_depth (Suc d) rd = ReadValue_with (ReadArray_with (ReadValue_depth d rd) rd) rd"

definition ReadValue :: "GGUFReader \<Rightarrow> 32 word \<Rightarrow> GGUFValue reading" where
  "ReadValue rd = ReadValue_depth (Suc (length (rd_f rd))) rd"

definition ReadArray :: "GGUFReader \<Rightarrow> GGUFMetadataKVArrayValue reading" where
  "ReadArray rd = ReadArray_with (ReadValue_depth (length (rd_f rd)) rd) rd"

subsection \<open>Metadata entries and tensor infos\<close>

text \<open>
  \<open>_GGUFMetadataReader.Read\<close> and \<open>_GGUFTensorInfoReader.Read\<close>. The conversion \<open>GGMLType(v)\<close>
  and the test \<open>ti.Type >= _GGMLTypeCount\<close> depend on the declaration of \<open>GGMLType\<close>: they
  are the parameter \<open>types\<close>, which is \<open>None\<close> for a tag that is not below \<open>_GGMLTypeCount\<close>.
\<close>

definition GGUFMetadataReader_Read :: "GGUFReader \<Rightarrow> GGUFMetadataKV reading" where
  "GGUFMetadataReader_Read rd pos =
     (case ReadString rd pos of
        Inl e \<Rightarrow> Inl e
      | Inr (k, pos1) \<Rightarrow>
          (case ReadUint32 rd pos1 of
             Inl e \<Rightarrow> Inl e
           | Inr (vt, pos2) \<Rightarrow>
               if GGUFMetadataValueTypeCount \<le> vt then Inl (InvalidType vt)
               else (case ReadValue rd vt pos2 of
                       Inl e \<Rightarrow> Inl e
                     | Inr (v, pos3) \<Rightarrow> Inr (\<lparr>Key = k, ValueType = vt, Value = v\<rparr>, pos3))))"

definition GGUFTensorInfoReader_Read ::
  "(32 word \<Rightarrow> GGMLType option) \<Rightarrow> GGUFReader \<Rightarrow> GGUFTensorInfo reading" where
  "GGUFTensorInfoReader_Read types rd pos =
     (case ReadString rd pos of
        Inl e \<Rightarrow> Inl e
      | Inr (nm, pos1) \<Rightarrow>
          (case ReadUint32 rd pos1 of
             Inl e \<Rightarrow> Inl e
           | Inr (nd, pos2) \<Rightarrow>
               (case read_n (ReadLength rd) (unat nd) pos2 of
                  Inl e \<Rightarrow> Inl e
                | Inr (ds, pos3) \<Rightarrow>
                    (case ReadUint32 rd pos3 of
                       Inl e \<Rightarrow> Inl e
                     | Inr (t, pos4) \<Rightarrow>
                         (case types t of
                            None \<Rightarrow> Inl (InvalidType t)
                          | Some ty \<Rightarrow>
                              (case ReadUint64 rd pos4 of
                                 Inl e \<Rightarrow> Inl e
                               | Inr (off, pos5) \<Rightarrow>
                                   Inr (\<lparr>Name = nm, NDimensions = nd, Dimensions = ds, Type = ty,
                                         Offset = off, StartOffset = int pos\<rparr>, pos5)))))))"

subsection \<open>Accessors\<close>

definition GGUFMetadataKVs_Get :: "GGUFMetadataKV list \<Rightarrow> string \<Rightarrow> GGUFMetadataKV option" where
  "GGUFMetadataKVs_Get kvs key = find (\<lambda>kv. Key kv = key) kvs"

definition ValueUint32 :: "GGUFMetadataKV \<Rightarrow> error + 32 word" where
  "ValueUint32 kv =
     (if ValueType kv \<noteq> GGUFMetadataValueTypeUint32 then Inl (Panic InvalidTypePanic)
      else case Value kv of VUint32 w \<Rightarrow> Inr w | _ \<Rightarrow> Inl (Panic TypeAssertion))"

subsection \<open>File decoder\<close>

text \<open>
  The padding block of \<open>parseGGUFFile\<close>: \<open>ag\<close> is 32, or \<open>ValueUint32\<close> of the entry
  \<open>general.alignment\<close>; \<open>gf.Padding = int64(ag) - (pds % int64(ag))\<close>, where \<open>pds\<close> is not
  negative, and a remainder by zero panics.
\<close>

definition alignment :: "GGUFMetadataKV list \<Rightarrow> error + 32 word" where
  "alignment kvs =
     (case GGUFMetadataKVs_Get kvs ''general.alignment'' of
        None \<Rightarrow> Inr 32
      | Some v \<Rightarrow> ValueUint32 v)"

definition padding :: "32 word \<Rightarrow> int \<Rightarrow> error + int" where
  "padding ag pds =
     (if ag = 0 then Inl (Panic DivideByZero) else Inr (uint ag - pds mod uint ag))"

text \<open>
  \<open>parseGGUFFile(s, f, o)\<close>: \<open>s\<close> is the size of the file, \<open>f\<close> its bytes, \<open>skip\<close> the option
  \<open>o.SkipLargeMetadata\<close>. \<open>decode_body\<close> is the part after the \<open>switch\<close> on the magic, for the
  byte order \<open>bo\<close> that the \<open>switch\<close> has chosen. The allocations are not modelled, nor is
  \<open>ModelBitsPerWeight\<close>.
\<close>

definition decode_body ::
  "(32 word \<Rightarrow> GGMLType option) \<Rightarrow> int \<Rightarrow> byte list \<Rightarrow> bool \<Rightarrow> 32 word \<Rightarrow> ByteOrder \<Rightarrow>
   nat \<Rightarrow> error + GGUFFile" where
  "decode_body types s f skip magic bo pos =
     (case binary_Read f bo 4 pos of
        Inl e \<Rightarrow> Inl e
      | Inr (ver, pos1) \<Rightarrow>
          (let rd = \<lparr>rd_v = ver, rd_SkipLargeMetadata = skip, rd_f = f, rd_bo = bo\<rparr> in
           case ReadLength rd pos1 of
             Inl e \<Rightarrow> Inl e
           | Inr (tc, pos2) \<Rightarrow>
               (case ReadLength rd pos2 of
                  Inl e \<Rightarrow> Inl e
                | Inr (kc, pos3) \<Rightarrow>
                    (case read_n (GGUFMetadataReader_Read rd) (unat kc) pos3 of
                       Inl e \<Rightarrow> Inl e
                     | Inr (kvs, pos4) \<Rightarrow>
                         (case read_n (GGUFTensorInfoReader_Read types rd) (unat tc) pos4 of
                            Inl e \<Rightarrow> Inl e
                          | Inr (tis, pds) \<Rightarrow>
                              (case alignment kvs of
                                 Inl e \<Rightarrow> Inl e
                               | Inr ag \<Rightarrow>
                                   (case padding ag (int pds) of
                                      Inl e \<Rightarrow> Inl e
                                    | Inr pad \<Rightarrow>
                                        (case GGUFTensorInfos_Elements tis of
                                           None \<Rightarrow> Inl (Panic IndexOutOfRange)
                                         | Some params \<Rightarrow>
                                             Inr \<lparr>Header =
                                                    \<lparr>Magic = magic, Version = ver, TensorCount = tc,
                                                     MetadataKVCount = kc, MetadataKV = kvs\<rparr>,
                                                  TensorInfos = tis,
                                                  Padding = pad,
                                                  TensorDataStartOffset = int pds + pad,
                                                  ModelSize = word_of_int (s - (int pds + pad)),
                                                  ModelParameters = params\<rparr>))))))))"

definition parseGGUFFile ::
  "(32 word \<Rightarrow> GGMLType option) \<Rightarrow> int \<Rightarrow> byte list \<Rightarrow> bool \<Rightarrow> error + GGUFFile" where
  "parseGGUFFile types s f skip =
     (case binary_Read f LittleEndian 4 0 of
        Inl e \<Rightarrow> Inl e
      | Inr (magic, pos) \<Rightarrow>
          if magic = GGUFMagicGGML \<or> magic = GGUFMagicGGMF \<or> magic = GGUFMagicGGJT
          then Inl (UnsupportedFormat magic)
          else if magic = GGUFMagicGGUFLe then decode_body types s f skip magic LittleEndian pos
          else if magic = GGUFMagicGGUFBe then decode_body types s f skip magic BigEndian pos
          else Inl ErrGGUFFileInvalidFormat)"

text \<open>
  \<open>ValueNumeric[T]\<close> for an integer type \<open>T\<close> of \<open>'t\<close> bits: the conversion \<open>T(x)\<close> of an
  unsigned \<open>x\<close> is \<open>ucast\<close>, that of a signed \<open>x\<close> is \<open>scast\<close>. The conversions of the two float
  types to \<open>T\<close> are the parameters \<open>of_f32\<close> and \<open>of_f64\<close>. A type assertion \<open>kv.Value.(...)\<close>
  on a value of another Go type panics. The case of \<open>GGUFMetadataValueTypeUint16\<close> asserts
  \<open>int16\<close>, as the source does.
\<close>

definition ValueNumeric ::
  "(32 word \<Rightarrow> 't::len word) \<Rightarrow> (64 word \<Rightarrow> 't word) \<Rightarrow> GGUFMetadataKV \<Rightarrow> error + 't word" where
  "ValueNumeric of_f32 of_f64 kv =
     (if ValueType kv = GGUFMetadataValueTypeUint8 then
        (case Value kv of VUint8 x \<Rightarrow> Inr (ucast x) | _ \<Rightarrow> Inl (Panic TypeAssertion))
      else if ValueType kv = GGUFMetadataValueTypeInt8 then
        (case Value kv of VInt8 x \<Rightarrow> Inr (scast x) | _ \<Rightarrow> Inl (Panic TypeAssertion))
      else if ValueType kv = GGUFMetadataValueTypeUint16 then
        (case Value kv of VInt16 x \<Rightarrow> Inr (scast x) | _ \<Rightarrow> Inl (Panic TypeAssertion))
      else if ValueType kv = GGUFMetadataValueTypeInt16 then
        (case Value kv of VInt16 x \<Rightarrow> Inr (scast x) | _ \<Rightarrow> Inl (Panic TypeAssertion))
      else if ValueType kv = GGUFMetadataValueTypeUint32 then
        (case Value kv of VUint32 x \<Rightarrow> Inr (ucast x) | _ \<Rightarrow> Inl (Panic TypeAssertion))
      else if ValueType kv = GGUFMetadataValueTypeInt32 then
        (case Value kv of VInt32 x \<Rightarrow> Inr (scast x) | _ \<Rightarrow> Inl (Panic TypeAssertion))
      else if ValueType kv = GGUFMetadataValueTypeFloat32 then
        (case Value kv of VFloat32 x \<Rightarrow> Inr (of_f32 x) | _ \<Rightarrow> Inl (Panic TypeAssertion))
      else if ValueType kv = GGUFMetadataValueTypeUint64 then
        (case Value kv of VUint64 x \<Rightarrow> Inr (ucast x) | _ \<Rightarrow> Inl (Panic TypeAssertion))
      else if ValueType kv = GGUFMetadataValueTypeInt64 then
        (case Value kv of VInt64 x \<Rightarrow> Inr (scast x) | _ \<Rightarrow> Inl (Panic TypeAssertion))
      else if ValueType kv = GGUFMetadataValueTypeFloat64 then
        (case Value kv of VFloat64 x \<Rightarrow> Inr (of_f64 x) | _ \<Rightarrow> Inl (Panic TypeAssertion))
      else Inl (Panic InvalidTypePanic))"

section \<open>Concrete inputs\<close>

text \<open>A tensor of the first block, with 256 elements of the given type.\<close>

definition blk_tensor :: "GGMLType \<Rightarrow> GGUFTensorInfo" where
  "blk_tensor t =
     \<lparr>Name = ''blk.0.w'', NDimensions = 1, Dimensions = [256], Type = t, Offset = 0,
      StartOffset = 0\<rparr>"

text \<open>Five tensors of the first block: four of type \<open>Q4_K\<close> and one of type \<open>Q6_K\<close>.\<close>

definition q4k_q6k_tensors :: GGUFTensorInfos where
  "q4k_q6k_tensors =
     [blk_tensor GGMLTypeQ4_K, blk_tensor GGMLTypeQ4_K, blk_tensor GGMLTypeQ6_K,
      blk_tensor GGMLTypeQ4_K, blk_tensor GGMLTypeQ4_K]"

text \<open>Six tensors of the first block: three of type \<open>Q4_K\<close>, two \<open>F32\<close>, one \<open>Q6_K\<close>.\<close>

definition q4k_f32_q6k_tensors :: GGUFTensorInfos where
  "q4k_f32_q6k_tensors =
     [blk_tensor GGMLTypeQ4_K, blk_tensor GGMLTypeF32, blk_tensor GGMLTypeQ4_K,
      blk_tensor GGMLTypeQ6_K, blk_tensor GGMLTypeF32, blk_tensor GGMLTypeQ4_K]"

text \<open>A dense type of four bytes, and tensors of it.\<close>

definition f32_trait :: "GGMLType \<Rightarrow> GGMLTypeTrait option" where
  "f32_trait t = (if t = GGMLTypeF32 then Some \<lparr>BlockSize = 1, TypeSize = 4\<rparr> else None)"

definition f32_tensor :: "string \<Rightarrow> 64 word list \<Rightarrow> GGUFTensorInfo" where
  "f32_tensor n ds =
     \<lparr>Name = n, NDimensions = of_nat (length ds), Dimensions = ds, Type = GGMLTypeF32,
      Offset = 0, StartOffset = 0\<rparr>"

definition four_tensors :: GGUFTensorInfos where
  "four_tensors =
     [f32_tensor ''blk.0.w'' [2, 3], f32_tensor ''output.w'' [5],
      f32_tensor ''decoder.block.1.w'' [7], f32_tensor ''blk.0.v'' [4]]"

text \<open>
  A little-endian file of version 3 with no tensor and one metadata entry,
  \<open>general.name = "tinymodl"\<close>: 64 bytes, so the tensor infos end at offset 64.
\<close>

definition aligned_file :: "byte list" where
  "aligned_file =
     [0x47, 0x47, 0x55, 0x46,  3, 0, 0, 0,
      0, 0, 0, 0, 0, 0, 0, 0,
      1, 0, 0, 0, 0, 0, 0, 0,
      12, 0, 0, 0, 0, 0, 0, 0,
      0x67, 0x65, 0x6e, 0x65, 0x72, 0x61, 0x6c, 0x2e, 0x6e, 0x61, 0x6d, 0x65,
      8, 0, 0, 0,
      8, 0, 0, 0, 0, 0, 0, 0,
      0x74, 0x69, 0x6e, 0x79, 0x6d, 0x6f, 0x64, 0x6c]"

text \<open>
  A little-endian file of version 3 with no tensor and one metadata entry,
  \<open>general.alignment = 32\<close>, stored with the value type \<open>uint64\<close> (tag 10).
\<close>

definition uint64_alignment_file :: "byte list" where
  "uint64_alignment_file =
     [0x47, 0x47, 0x55, 0x46,  3, 0, 0, 0,
      0, 0, 0, 0, 0, 0, 0, 0,
      1, 0, 0, 0, 0, 0, 0, 0,
      17, 0, 0, 0, 0, 0, 0, 0,
      0x67, 0x65, 0x6e, 0x65, 0x72, 0x61, 0x6c, 0x2e,
      0x61, 0x6c, 0x69, 0x67, 0x6e, 0x6d, 0x65, 0x6e, 0x74,
      10, 0, 0, 0,
      32, 0, 0, 0, 0, 0, 0, 0]"



text \<open>An array value of version 3: element type 9 (array), length 0.\<close>

definition empty_array_of_arrays :: "byte list" where
  "empty_array_of_arrays = [9, 0, 0, 0,  0, 0, 0, 0, 0, 0, 0, 0]"

text \<open>A tag table that knows no element type; the files above have no tensor.\<close>

definition no_types :: "32 word \<Rightarrow> GGMLType option" where
  "no_types t = None"

section \<open>Notions used in the proofs\<close>

text \<open>
  Sums with a panic: \<open>add_opt\<close> adds two results, \<open>tot g xs\<close> is the total of \<open>g\<close> over
  \<open>xs\<close>. A pointer is valid when it leads through named nodes only; \<open>ptrs_valid\<close> says that
  every pointer in \<open>pm\<close> is; \<open>step_ok\<close> is what one step of \<open>layers\<close> keeps and adds.
\<close>

definition add_opt :: "64 word option \<Rightarrow> 64 word option \<Rightarrow> 64 word option" where
  "add_opt a b = (case a of None \<Rightarrow> None | Some x \<Rightarrow> map_option ((+) x) b)"

definition tot :: "('a \<Rightarrow> 64 word option) \<Rightarrow> 'a list \<Rightarrow> 64 word option" where
  "tot g xs = foldr (\<lambda>x r. add_opt (g x) r) xs (Some 0)"

fun valid_ptr :: "node_ptr \<Rightarrow> LayerNode list \<Rightarrow> bool" where
  "valid_ptr [] items = True"
| "valid_ptr (i # p) items =
     (i < length items \<and>
      (case items ! i of NamedTensorInfos n cs \<Rightarrow> valid_ptr p cs | LeafTensorInfo ti \<Rightarrow> False))"

definition ptrs_valid :: "LayerNode list \<times> (string \<rightharpoonup> node_ptr) \<Rightarrow> bool" where
  "ptrs_valid st \<longleftrightarrow> (\<forall>k l. snd st k = Some l \<longrightarrow> valid_ptr l (fst st))"

definition step_ok ::
  "(GGUFTensorInfo \<Rightarrow> 64 word option) \<Rightarrow> GGUFTensorInfo \<Rightarrow>
   LayerNode list \<Rightarrow> LayerNode list \<times> (string \<rightharpoonup> node_ptr) \<Rightarrow> bool" where
  "step_ok f ti ret st' \<longleftrightarrow>
     ptrs_valid st' \<and>
     tot (node_total f) (fst st') = add_opt (tot (node_total f) ret) (f ti)"

text \<open>A read is good when every success ends at or after its start and inside the file.\<close>

definition good :: "byte list \<Rightarrow> 'a reading \<Rightarrow> bool" where
  "good f r \<longleftrightarrow> (\<forall>pos x pos'. r pos = Inr (x, pos') \<longrightarrow> pos \<le> pos' \<and> pos' \<le> length f)"

text \<open>
  The payload of an array that the file holds whole: \<open>fixed_width\<close> is the width of an element
  of a fixed-width type; \<open>strings_end rd k pos\<close> is the end of \<open>k\<close> strings that start at
  \<open>pos\<close> and lie inside the file, each a length followed by that many bytes; \<open>items_end\<close> is
  the end of the payload of \<open>n\<close> elements of type \<open>t\<close>, for the fixed-width types and the
  string type.
\<close>

definition fixed_width :: "32 word \<Rightarrow> nat option" where
  "fixed_width t =
     (if t = GGUFMetadataValueTypeUint8 \<or> t = GGUFMetadataValueTypeInt8 \<or>
         t = GGUFMetadataValueTypeBool then Some 1
      else if t = GGUFMetadataValueTypeUint16 \<or> t = GGUFMetadataValueTypeInt16 then Some 2
      else if t = GGUFMetadataValueTypeUint32 \<or> t = GGUFMetadataValueTypeInt32 \<or>
         t = GGUFMetadataValueTypeFloat32 then Some 4
      else if t = GGUFMetadataValueTypeUint64 \<or> t = GGUFMetadataValueTypeInt64 \<or>
         t = GGUFMetadataValueTypeFloat64 then Some 8
      else None)"

primrec strings_end :: "GGUFReader \<Rightarrow> nat \<Rightarrow> nat \<Rightarrow> nat option" where
  "strings_end rd 0 pos = Some pos"
| "strings_end rd (Suc k) pos =
     (case ReadLength rd pos of
        Inl e \<Rightarrow> None
      | Inr (l, pos1) \<Rightarrow>
          if pos1 + unat l \<le> length (rd_f rd) then strings_end rd k (pos1 + unat l)
          else None)"

definition items_end :: "GGUFReader \<Rightarrow> 32 word \<Rightarrow> 64 word \<Rightarrow> nat \<Rightarrow> nat option" where
  "items_end rd t n itemStart =
     (case fixed_width t of
        Some w \<Rightarrow>
          if itemStart + unat n * w \<le> length (rd_f rd) then Some (itemStart + unat n * w)
          else None
      | None \<Rightarrow>
          if t = GGUFMetadataValueTypeString then strings_end rd (unat n) itemStart else None)"

section \<open>Properties of the tensor size calculator\<close>

lemma Elements_fold_prod:
  "n \<le> length ds \<Longrightarrow>
   fold (\<lambda>i r. case r of None \<Rightarrow> None
              | Some ret \<Rightarrow> if i < length ds then Some (ret * ds ! i) else None)
     [0..<n] (Some (1::64 word)) = Some (prod_list (take n ds))"
proof (induction n)
  case 0
  then show ?case by simp
next
  case (Suc n)
  then have "n < length ds" by simp
  with Suc show ?case
    by (simp add: take_Suc_conv_app_nth)
qed

lemma unat_prod_list:
  "prod_list (map unat ws) < 2 ^ 64 \<Longrightarrow>
   unat (prod_list ws :: 64 word) = prod_list (map unat ws)"
proof (induction ws)
  case Nil
  then show ?case by simp
next
  case (Cons w ws)
  show ?case
  proof (cases "unat w = 0")
    case True
    then have "w = 0" by (simp add: unat_eq_0)
    then show ?thesis by simp
  next
    case False
    then have "prod_list (map unat ws) \<le> unat w * prod_list (map unat ws)" by simp
    moreover from Cons.prems have "unat w * prod_list (map unat ws) < 2 ^ 64" by simp
    ultimately have "prod_list (map unat ws) < 2 ^ 64" by (rule le_less_trans)
    with Cons.IH have ih: "unat (prod_list ws) = prod_list (map unat ws)" by simp
    have "unat (w * prod_list ws) = (unat w * unat (prod_list ws)) mod 2 ^ 64"
      by (simp add: unat_word_ariths)
    with ih Cons.prems show ?thesis by simp
  qed
qed

text \<open>
  C7. \<open>Elements\<close> is 0 for a tensor with no dimension, and otherwise the product of the
  declared dimension sizes: the product of the \<open>uint64\<close> values, which is the arithmetic
  product whenever that is below \<open>2 ^ 64\<close>. \<open>Bytes\<close> of a tensor of shape \<open>[1]\<close> whose type
  is dense (block size 1) is the byte size of the type.
\<close>

theorem Elements_product_Bytes_dense_scalar:
  "(NDimensions ti = 0 \<longrightarrow> GGUFTensorInfo_Elements ti = Some 0) \<and>
   (NDimensions ti \<noteq> 0 \<and> length (Dimensions ti) = unat (NDimensions ti) \<longrightarrow>
      GGUFTensorInfo_Elements ti = Some (prod_list (Dimensions ti)) \<and>
      (prod_list (map unat (Dimensions ti)) < 2 ^ 64 \<longrightarrow>
         map_option unat (GGUFTensorInfo_Elements ti) =
           Some (prod_list (map unat (Dimensions ti))))) \<and>
   (trait (Type ti) = Some tt \<and> BlockSize tt = 1 \<and> NDimensions ti = 1 \<and>
    Dimensions ti = [1] \<longrightarrow>
      GGUFTensorInfo_Bytes trait ti = Some (TypeSize tt))"
proof (intro conjI impI)
  assume "NDimensions ti = 0"
  then show "GGUFTensorInfo_Elements ti = Some 0"
    by (simp add: GGUFTensorInfo_Elements_def)
next
  assume a: "NDimensions ti \<noteq> 0 \<and> length (Dimensions ti) = unat (NDimensions ti)"
  then show e: "GGUFTensorInfo_Elements ti = Some (prod_list (Dimensions ti))"
    using Elements_fold_prod [of "unat (NDimensions ti)" "Dimensions ti"]
    by (simp add: GGUFTensorInfo_Elements_def)
  assume "prod_list (map unat (Dimensions ti)) < 2 ^ 64"
  then show "map_option unat (GGUFTensorInfo_Elements ti) =
      Some (prod_list (map unat (Dimensions ti)))"
    using e by (simp add: unat_prod_list)
next
  assume "trait (Type ti) = Some tt \<and> BlockSize tt = 1 \<and> NDimensions ti = 1 \<and>
    Dimensions ti = [1]"
  then show "GGUFTensorInfo_Bytes trait ti = Some (TypeSize tt)"
    by (simp add: GGUFTensorInfo_Bytes_def strides_def add_strided_def)
qed

theorem Elements_product_Bytes_dense_scalar_witness:
  "GGUFTensorInfo_Elements
     \<lparr>Name = ''t'', NDimensions = 0, Dimensions = [], Type = GGMLTypeF32, Offset = 0,
      StartOffset = 0\<rparr> = Some 0 \<and>
   GGUFTensorInfo_Elements
     \<lparr>Name = ''t'', NDimensions = 3, Dimensions = [2, 3, 4], Type = GGMLTypeF32, Offset = 0,
      StartOffset = 0\<rparr> = Some 24 \<and>
   GGUFTensorInfo_Bytes
     (\<lambda>t. if t = GGMLTypeF32 then Some \<lparr>BlockSize = 1, TypeSize = 4\<rparr> else None)
     \<lparr>Name = ''t'', NDimensions = 1, Dimensions = [1], Type = GGMLTypeF32, Offset = 0,
      StartOffset = 0\<rparr> = Some 4"
  using
    Elements_product_Bytes_dense_scalar
      [of "\<lparr>Name = ''t'', NDimensions = 0, Dimensions = [], Type = GGMLTypeF32, Offset = 0,
            StartOffset = 0\<rparr>"]
    Elements_product_Bytes_dense_scalar
      [of "\<lparr>Name = ''t'', NDimensions = 3, Dimensions = [2, 3, 4], Type = GGMLTypeF32,
            Offset = 0, StartOffset = 0\<rparr>"]
    Elements_product_Bytes_dense_scalar
      [of "\<lparr>Name = ''t'', NDimensions = 1, Dimensions = [1], Type = GGMLTypeF32, Offset = 0,
            StartOffset = 0\<rparr>"
          "\<lambda>t. if t = GGMLTypeF32 then Some \<lparr>BlockSize = 1, TypeSize = 4\<rparr> else None"
          "\<lparr>BlockSize = 1, TypeSize = 4\<rparr>"]
  by simp

section \<open>Properties of the file-type inference\<close>

lemma ranked_sort_by_count: "ranked tis (sort_by_count tis)"
proof -
  let ?f = "\<lambda>t. - int (cm tis t)"
  have "sorted (map ?f (sort_key ?f (remdups (blk_types tis))))" by (rule sorted_sort_key)
  then have "sorted_wrt (\<lambda>a b. cm tis b \<le> cm tis a) (sort_key ?f (remdups (blk_types tis)))"
    by (simp add: sorted_wrt_map)
  then show ?thesis by (simp add: ranked_def sort_by_count_def)
qed

text \<open>The inference panics on exactly one ranking: \<open>Q3_K\<close> alone.\<close>

lemma fileTypeOfRanking_fails_iff:
  "(\<exists>e. fileTypeOfRanking ts = Inl e) \<longleftrightarrow> ts = [GGMLTypeQ3_K]"
proof (cases ts)
  case Nil
  then show ?thesis by (simp add: fileTypeOfRanking_def)
next
  case (Cons t0 rest)
  show ?thesis
  proof (cases rest)
    case Nil
    with Cons show ?thesis by (cases t0) (simp_all add: fileTypeOfRanking_def)
  next
    case (Cons t1 rest')
    with \<open>ts = t0 # rest\<close> show ?thesis
      by (cases t0; cases t1) (simp_all add: fileTypeOfRanking_def)
  qed
qed

text \<open>
  C2. The inference does not always return a tag: for a file whose only tensor is named
  \<open>blk.0.w\<close> and has the type \<open>Q3_K\<close>, the ranking is \<open>[Q3_K]\<close>, and the \<open>Q3_K\<close> case reads
  \<open>ts[1]\<close>, which is out of range.
\<close>

theorem guessFileType_Q3_K_alone_panics:
  "ranked [blk_tensor GGMLTypeQ3_K] [GGMLTypeQ3_K] \<and>
   guessFileType_ranked [blk_tensor GGMLTypeQ3_K] [GGMLTypeQ3_K] = Inl (Panic IndexOutOfRange) \<and>
   guessFileType [blk_tensor GGMLTypeQ3_K] = Inl (Panic IndexOutOfRange)"
  by (simp add: ranked_def guessFileType_def guessFileType_ranked_def fileTypeOfRanking_def
      sort_by_count_def blk_types_def cm_def blk_tensor_def)

lemma ranking_of_two:
  fixes f :: "'a \<Rightarrow> nat"
  assumes d: "distinct ts" and s: "set ts = {a, b}"
    and srt: "sorted_wrt (\<lambda>x y. f y \<le> f x) ts" and lt: "f b < f a"
  shows "ts = [a, b]"
proof -
  from lt have ab: "a \<noteq> b" by auto
  have "length ts = card (set ts)" using d by (simp add: distinct_card)
  also have "\<dots> = 2" using s ab by simp
  finally have len: "length ts = 2" .
  then obtain x y where ts: "ts = [x, y]"
    by (metis One_nat_def Suc_1 length_0_conv length_Suc_conv)
  from s ts have xy: "{x, y} = {a, b}" by simp
  from srt ts have le: "f y \<le> f x" by simp
  from xy have "(x = a \<and> y = b) \<or> (x = b \<and> y = a)" by (simp add: doubleton_eq_iff)
  with le lt have "x = a \<and> y = b" by auto
  with ts show ?thesis by simp
qed

lemma Q4_K_first:
  "tis \<noteq> [] \<Longrightarrow> ts \<noteq> [] \<Longrightarrow> hd ts = GGMLTypeQ4_K \<Longrightarrow>
   guessFileType_ranked tis ts =
     (if 2 < length ts \<and> ts ! 2 = GGMLTypeQ6_K then Inr GGUFFileTypeMostlyIQ2_XXS
      else Inr GGUFFileTypeMostlyQ6_K)"
  by (cases ts) (simp_all add: guessFileType_ranked_def fileTypeOfRanking_def)

text \<open>
  C3, as the code has it. When the tensors named \<open>blk...\<close> have exactly the two element types
  \<open>Q4_K\<close> and \<open>Q6_K\<close>, and \<open>Q4_K\<close> occurs more often, every outcome of the sort is
  \<open>[Q4_K, Q6_K]\<close>, no third-ranked type exists, and the inference returns
  \<open>GGUFFileTypeMostlyQ6_K\<close>, the legacy \<open>Q4_K_S\<close> tag. With \<open>Q4_K\<close> ranked first, it returns
  \<open>GGUFFileTypeMostlyIQ2_XXS\<close>, the legacy \<open>Q4_K_M\<close> tag, exactly when a third-ranked type
  exists and is \<open>Q6_K\<close>.
\<close>

theorem guessFileType_Q4_K_Q6_K_is_Q4_K_S:
  "(ranked tis ts \<and> set (blk_types tis) = {GGMLTypeQ4_K, GGMLTypeQ6_K} \<and>
    cm tis GGMLTypeQ6_K < cm tis GGMLTypeQ4_K \<longrightarrow>
      guessFileType_ranked tis ts = Inr GGUFFileTypeMostlyQ6_K) \<and>
   (tis \<noteq> [] \<and> ts \<noteq> [] \<and> hd ts = GGMLTypeQ4_K \<longrightarrow>
      (guessFileType_ranked tis ts = Inr GGUFFileTypeMostlyIQ2_XXS \<longleftrightarrow>
         2 < length ts \<and> ts ! 2 = GGMLTypeQ6_K))"
proof (intro conjI impI)
  assume a: "ranked tis ts \<and> set (blk_types tis) = {GGMLTypeQ4_K, GGMLTypeQ6_K} \<and>
    cm tis GGMLTypeQ6_K < cm tis GGMLTypeQ4_K"
  then have d: "distinct ts" and s: "set ts = set (blk_types tis)"
    and srt: "sorted_wrt (\<lambda>x y. cm tis y \<le> cm tis x) ts"
    by (simp_all add: ranked_def)
  from a have s2: "set (blk_types tis) = {GGMLTypeQ4_K, GGMLTypeQ6_K}"
    and lt: "cm tis GGMLTypeQ6_K < cm tis GGMLTypeQ4_K" by simp_all
  from s s2 have s': "set ts = {GGMLTypeQ4_K, GGMLTypeQ6_K}" by (rule trans)
  from d s' srt lt have ts: "ts = [GGMLTypeQ4_K, GGMLTypeQ6_K]"
    by (rule ranking_of_two)
  have "tis \<noteq> []"
  proof
    assume "tis = []"
    then have "set (blk_types tis) = {}" by (simp add: blk_types_def)
    with s2 show False by simp
  qed
  then show "guessFileType_ranked tis ts = Inr GGUFFileTypeMostlyQ6_K"
    by (simp add: ts guessFileType_ranked_def fileTypeOfRanking_def)
next
  assume "tis \<noteq> [] \<and> ts \<noteq> [] \<and> hd ts = GGMLTypeQ4_K"
  then have "guessFileType_ranked tis ts =
     (if 2 < length ts \<and> ts ! 2 = GGMLTypeQ6_K then Inr GGUFFileTypeMostlyIQ2_XXS
      else Inr GGUFFileTypeMostlyQ6_K)"
    by (simp add: Q4_K_first)
  then show "guessFileType_ranked tis ts = Inr GGUFFileTypeMostlyIQ2_XXS \<longleftrightarrow>
         2 < length ts \<and> ts ! 2 = GGMLTypeQ6_K"
    by simp
qed

theorem guessFileType_Q4_K_Q6_K_is_Q4_K_S_witness:
  "ranked q4k_q6k_tensors [GGMLTypeQ4_K, GGMLTypeQ6_K] \<and>
   set (blk_types q4k_q6k_tensors) = {GGMLTypeQ4_K, GGMLTypeQ6_K} \<and>
   cm q4k_q6k_tensors GGMLTypeQ6_K < cm q4k_q6k_tensors GGMLTypeQ4_K \<and>
   guessFileType_ranked q4k_q6k_tensors [GGMLTypeQ4_K, GGMLTypeQ6_K] =
     Inr GGUFFileTypeMostlyQ6_K \<and>
   ranked q4k_f32_q6k_tensors [GGMLTypeQ4_K, GGMLTypeF32, GGMLTypeQ6_K] \<and>
   guessFileType_ranked q4k_f32_q6k_tensors [GGMLTypeQ4_K, GGMLTypeF32, GGMLTypeQ6_K] =
     Inr GGUFFileTypeMostlyIQ2_XXS"
proof -
  have r: "ranked q4k_q6k_tensors [GGMLTypeQ4_K, GGMLTypeQ6_K]"
    by (auto simp: ranked_def blk_types_def cm_def blk_tensor_def q4k_q6k_tensors_def)
  have s: "set (blk_types q4k_q6k_tensors) = {GGMLTypeQ4_K, GGMLTypeQ6_K}"
    by (auto simp: blk_types_def blk_tensor_def q4k_q6k_tensors_def)
  have c: "cm q4k_q6k_tensors GGMLTypeQ6_K < cm q4k_q6k_tensors GGMLTypeQ4_K"
    by (simp add: blk_types_def cm_def blk_tensor_def q4k_q6k_tensors_def)
  have r3: "ranked q4k_f32_q6k_tensors [GGMLTypeQ4_K, GGMLTypeF32, GGMLTypeQ6_K]"
    by (auto simp: ranked_def blk_types_def cm_def blk_tensor_def q4k_f32_q6k_tensors_def)
  have n3: "q4k_f32_q6k_tensors \<noteq> []" by (simp add: q4k_f32_q6k_tensors_def)
  from r s c r3 n3
    guessFileType_Q4_K_Q6_K_is_Q4_K_S [of q4k_q6k_tensors "[GGMLTypeQ4_K, GGMLTypeQ6_K]"]
    guessFileType_Q4_K_Q6_K_is_Q4_K_S
      [of q4k_f32_q6k_tensors "[GGMLTypeQ4_K, GGMLTypeF32, GGMLTypeQ6_K]"]
  show ?thesis by simp
qed

text \<open>
  C3, as stated, fails: four tensors of type \<open>Q4_K\<close> and one of type \<open>Q6_K\<close> (80% and 20%),
  all named \<open>blk.0.w\<close>, do not give \<open>GGUFFileTypeMostlyIQ2_XXS\<close>, the legacy \<open>Q4_K_M\<close> tag.
\<close>

theorem guessFileType_Q4_K_Q6_K_not_Q4_K_M:
  "ranked q4k_q6k_tensors [GGMLTypeQ4_K, GGMLTypeQ6_K] \<and>
   guessFileType_ranked q4k_q6k_tensors [GGMLTypeQ4_K, GGMLTypeQ6_K] \<noteq>
     Inr GGUFFileTypeMostlyIQ2_XXS \<and>
   guessFileType q4k_q6k_tensors = Inr GGUFFileTypeMostlyQ6_K"
  by (auto simp: ranked_def guessFileType_def guessFileType_ranked_def fileTypeOfRanking_def
      sort_by_count_def blk_types_def cm_def blk_tensor_def q4k_q6k_tensors_def)

section \<open>Properties of the bulk lookup\<close>

text \<open>
  C10. The \<open>Index\<close> of a single tensor info finds the tensor exactly when the list of names
  is not empty and its first element is the tensor's name; a name at any later position is
  not found, while the \<open>Index\<close> of the flat list and that of the tree find a name at any
  position.
\<close>

theorem GGUFTensorInfo_Index_first_name_only:
  "GGUFTensorInfo_Index ti ns =
     (if ns \<noteq> [] \<and> hd ns = Name ti then ([(Name ti, ti)], 1) else ([], 0)) \<and>
   (Name ti \<in> set ns \<longrightarrow>
      GGUFTensorInfos_Index [ti] ns = ([(Name ti, ti)], 1) \<and>
      GGUFLayerTensorInfos_Index [LeafTensorInfo ti] ns = ([(Name ti, ti)], 1))"
  by (cases ns)
    (simp_all add: GGUFTensorInfo_Index_def GGUFTensorInfos_Index_def
      GGUFLayerTensorInfos_Index_def)

theorem GGUFTensorInfo_Index_first_name_only_witness:
  "GGUFTensorInfo_Index (blk_tensor GGMLTypeF32) [''output.weight'', ''blk.0.w''] = ([], 0) \<and>
   GGUFTensorInfos_Index [blk_tensor GGMLTypeF32] [''output.weight'', ''blk.0.w''] =
     ([(''blk.0.w'', blk_tensor GGMLTypeF32)], 1) \<and>
   GGUFLayerTensorInfos_Index [LeafTensorInfo (blk_tensor GGMLTypeF32)]
       [''output.weight'', ''blk.0.w''] =
     ([(''blk.0.w'', blk_tensor GGMLTypeF32)], 1)"
  using GGUFTensorInfo_Index_first_name_only
    [of "blk_tensor GGMLTypeF32" "[''output.weight'', ''blk.0.w'']"]
  by (simp add: blk_tensor_def)

section \<open>Properties of the layer hierarchy\<close>

lemma add_opt_simps [simp]:
  "add_opt None b = None" "add_opt a None = None" "add_opt (Some x) (Some y) = Some (x + y)"
  by (simp_all add: add_opt_def split: option.splits)

lemma add_opt_zero [simp]: "add_opt (Some 0) b = b" "add_opt a (Some 0) = a"
  by (cases b; simp) (cases a; simp)

lemma add_opt_commute: "add_opt a b = add_opt b a"
  by (cases a; cases b) (simp_all add: add.commute)

lemma add_opt_assoc: "add_opt (add_opt a b) c = add_opt a (add_opt b c)"
  by (cases a; cases b; cases c) (simp_all add: add.assoc)

lemma tot_simps [simp]: "tot g [] = Some 0" "tot g (x # xs) = add_opt (g x) (tot g xs)"
  by (simp_all add: tot_def)

lemma tot_append: "tot g (xs @ ys) = add_opt (tot g xs) (tot g ys)"
  by (induction xs) (simp_all add: add_opt_assoc)

lemma tot_update:
  "i < length xs \<Longrightarrow> g y = add_opt (g (xs ! i)) v \<Longrightarrow>
   tot g (xs[i := y]) = add_opt (tot g xs) v"
proof (induction xs arbitrary: i)
  case Nil
  then show ?case by simp
next
  case (Cons x xs)
  show ?case
  proof (cases i)
    case 0
    with Cons.prems show ?thesis
      by (simp add: add_opt_assoc add_opt_commute [of v])
  next
    case (Suc j)
    with Cons show ?thesis by (simp add: add_opt_assoc)
  qed
qed

lemma sum_loop_tot: "sum_loop f xs ret = add_opt (Some ret) (tot f xs)"
proof (induction xs arbitrary: ret)
  case Nil
  then show ?case by simp
next
  case (Cons x xs)
  then show ?case
    by (cases "f x"; cases "tot f xs") (simp_all add: add.assoc)
qed

lemma list_total_tot: "list_total f xs ret = add_opt (Some ret) (tot (node_total f) xs)"
proof (induction xs arbitrary: ret)
  case Nil
  then show ?case by simp
next
  case (Cons x xs)
  then show ?case
    by (cases "node_total f x"; cases "tot (node_total f) xs") (simp_all add: add.assoc)
qed

lemma node_total_Named: "node_total f (NamedTensorInfos n cs) = tot (node_total f) cs"
  by (simp add: list_total_tot)

lemma tot_append_at:
  "valid_ptr p items \<Longrightarrow>
   tot (node_total f) (append_at p x items) = add_opt (tot (node_total f) items) (node_total f x)"
proof (induction p arbitrary: items)
  case Nil
  then show ?case by (simp add: tot_append)
next
  case (Cons i p)
  from Cons.prems obtain n cs where i: "i < length items"
    and n: "items ! i = NamedTensorInfos n cs" and v: "valid_ptr p cs"
    by (auto split: LayerNode.splits)
  from Cons.IH [OF v]
  have "node_total f (NamedTensorInfos n (append_at p x cs)) =
      add_opt (node_total f (items ! i)) (node_total f x)"
    by (simp only: node_total_Named n)
  with i have "tot (node_total f) (items[i := NamedTensorInfos n (append_at p x cs)]) =
      add_opt (tot (node_total f) items) (node_total f x)"
    by (rule tot_update)
  with i n show ?case by simp
qed

lemma valid_ptr_append_at:
  "valid_ptr q items \<Longrightarrow> valid_ptr p items \<Longrightarrow> valid_ptr q (append_at p x items)"
proof (induction p arbitrary: q items)
  case Nil
  then show ?case by (cases q) (auto simp: nth_append split: LayerNode.splits)
next
  case (Cons i p)
  from Cons.prems(2) obtain n cs where i: "i < length items"
    and n: "items ! i = NamedTensorInfos n cs" and v: "valid_ptr p cs"
    by (auto split: LayerNode.splits)
  show ?case
  proof (cases q)
    case Nil
    then show ?thesis by simp
  next
    case (Cons j q')
    show ?thesis
    proof (cases "j = i")
      case True
      with Cons Cons.prems(1) n have "valid_ptr q' cs" by simp
      then have "valid_ptr q' (append_at p x cs)" using v by (rule Cons.IH)
      with True Cons i n show ?thesis by simp
    next
      case False
      with Cons Cons.prems(1) i n show ?thesis by simp
    qed
  qed
qed

lemma valid_ptr_snoc: "valid_ptr q items \<Longrightarrow> valid_ptr q (items @ [x])"
  using valid_ptr_append_at [of q items "[]" x] by simp

lemma valid_ptr_new_child:
  "valid_ptr xl items \<Longrightarrow>
   valid_ptr (xl @ [length (children_at xl items)]) (append_at xl (NamedTensorInfos n []) items)"
proof (induction xl arbitrary: items)
  case Nil
  then show ?case by simp
next
  case (Cons i p)
  from Cons.prems obtain m cs where i: "i < length items"
    and n: "items ! i = NamedTensorInfos m cs" and v: "valid_ptr p cs"
    by (auto split: LayerNode.splits)
  from Cons.IH [OF v] i n show ?case by simp
qed

lemma tot_leaf_snoc:
  "tot (node_total f) (items @ [LeafTensorInfo ti]) = add_opt (tot (node_total f) items) (f ti)"
  by (simp add: tot_append)

lemma tot_empty_node_snoc:
  "tot (node_total f) (items @ [NamedTensorInfos p []]) = tot (node_total f) items"
  by (simp add: tot_append)

lemma ptrs_valid_snoc: "ptrs_valid (ret, pm) \<Longrightarrow> ptrs_valid (ret @ [x], pm)"
  by (simp add: ptrs_valid_def valid_ptr_snoc)

lemma ptrs_valid_append_at:
  "ptrs_valid (ret, pm) \<Longrightarrow> valid_ptr l ret \<Longrightarrow> ptrs_valid (append_at l x ret, pm)"
  by (simp add: ptrs_valid_def valid_ptr_append_at)

lemma ptrs_valid_lookup: "ptrs_valid (ret, pm) \<Longrightarrow> pm k = Some l \<Longrightarrow> valid_ptr l ret"
  by (simp add: ptrs_valid_def)

lemma valid_ptr_new_top: "valid_ptr [length ret] (ret @ [NamedTensorInfos p []])"
  by simp

lemma ptrs_valid_new_top:
  "ptrs_valid (ret, pm) \<Longrightarrow>
   ptrs_valid (ret @ [NamedTensorInfos p []], pm(p \<mapsto> [length ret]))"
  by (simp add: ptrs_valid_def valid_ptr_snoc)

lemma ptrs_valid_new_child:
  "ptrs_valid (ret, pm) \<Longrightarrow> valid_ptr xl ret \<Longrightarrow>
   ptrs_valid (append_at xl (NamedTensorInfos p []) ret,
     pm(p \<mapsto> xl @ [length (children_at xl ret)]))"
  by (simp add: ptrs_valid_def valid_ptr_append_at valid_ptr_new_child)

lemma tot_new_child:
  "valid_ptr xl ret \<Longrightarrow>
   tot (node_total f) (append_at xl (NamedTensorInfos p []) ret) = tot (node_total f) ret"
  by (simp add: tot_append_at)

lemma step_ok_append:
  "ptrs_valid (ret, pm) \<Longrightarrow> valid_ptr l ret \<Longrightarrow>
   tot (node_total f) ret = tot (node_total f) ret0 \<Longrightarrow>
   step_ok f ti ret0 (append_at l (LeafTensorInfo ti) ret, pm)"
  by (simp add: step_ok_def ptrs_valid_append_at tot_append_at)

lemma layers_step_ok:
  assumes inv: "ptrs_valid (ret, pm)"
  shows "step_ok f ti ret (layers_step ti (ret, pm))"
proof -
  let ?ps = "split_dot (Name ti)"
  consider (blk) "2 \<le> length ?ps \<and> ?ps ! 0 = ''blk''"
    | (coder) "\<not> (2 \<le> length ?ps \<and> ?ps ! 0 = ''blk'')"
        "3 \<le> length ?ps \<and> (?ps ! 0 = ''decoder'' \<or> ?ps ! 0 = ''encoder'')"
    | (other) "\<not> (2 \<le> length ?ps \<and> ?ps ! 0 = ''blk'')"
        "\<not> (3 \<le> length ?ps \<and> (?ps ! 0 = ''decoder'' \<or> ?ps ! 0 = ''encoder''))"
    by blast
  then show ?thesis
  proof cases
    case blk
    let ?p = "join_dot [?ps ! 0, ?ps ! 1]"
    show ?thesis
    proof (cases "pm ?p")
      case None
      have "step_ok f ti ret
          (append_at [length ret] (LeafTensorInfo ti) (ret @ [NamedTensorInfos ?p []]),
           pm(?p \<mapsto> [length ret]))"
        by (rule step_ok_append [OF ptrs_valid_new_top [OF inv] valid_ptr_new_top
              tot_empty_node_snoc])
      with blk None show ?thesis by (simp add: layers_step_def Let_def)
    next
      case (Some l)
      have "step_ok f ti ret (append_at l (LeafTensorInfo ti) ret, pm)"
        by (rule step_ok_append [OF inv ptrs_valid_lookup [OF inv Some] refl])
      with blk Some show ?thesis by (simp add: layers_step_def Let_def)
    qed
  next
    case other
    have "layers_step ti (ret, pm) = (ret @ [LeafTensorInfo ti], pm)"
      unfolding layers_step_def Let_def fst_conv snd_conv using other by (simp only: if_False)
    with inv show ?thesis
      by (simp add: step_ok_def ptrs_valid_snoc tot_leaf_snoc)
  next
    case coder
    let ?p = "?ps ! 0"
    let ?p2 = "join_dot [?ps ! 0, ?ps ! 1, ?ps ! 2]"
    obtain ret1 pm1 xl where top:
      "(case pm ?p of
          None \<Rightarrow> (ret @ [NamedTensorInfos ?p []], pm(?p \<mapsto> [length ret]), [length ret])
        | Some xl \<Rightarrow> (ret, pm, xl)) = (ret1, pm1, xl)"
      by (metis prod_cases3)
    have inv1: "ptrs_valid (ret1, pm1)" and xl: "valid_ptr xl ret1"
      and t1: "tot (node_total f) ret1 = tot (node_total f) ret"
    proof -
      show "ptrs_valid (ret1, pm1)"
        using top inv by (auto split: option.splits intro: ptrs_valid_new_top)
      show "valid_ptr xl ret1"
        using top inv by (auto split: option.splits dest: ptrs_valid_lookup)
      show "tot (node_total f) ret1 = tot (node_total f) ret"
        using top by (auto split: option.splits simp: tot_empty_node_snoc)
    qed
    show ?thesis
    proof (cases "?ps ! 1 \<noteq> ''block''")
      case True
      have "step_ok f ti ret (append_at xl (LeafTensorInfo ti) ret1, pm1)"
        by (rule step_ok_append [OF inv1 xl t1])
      with coder True top show ?thesis by (simp add: layers_step_def Let_def)
    next
      case False
      show ?thesis
      proof (cases "pm1 ?p2")
        case None
        let ?l = "xl @ [length (children_at xl ret1)]"
        let ?ret2 = "append_at xl (NamedTensorInfos ?p2 []) ret1"
        have "ptrs_valid (?ret2, pm1(?p2 \<mapsto> ?l))"
          by (rule ptrs_valid_new_child [OF inv1 xl])
        moreover have "valid_ptr ?l ?ret2" by (rule valid_ptr_new_child [OF xl])
        moreover have "tot (node_total f) ?ret2 = tot (node_total f) ret"
          using tot_new_child [OF xl, of f ?p2] t1 by simp
        ultimately have "step_ok f ti ret (append_at ?l (LeafTensorInfo ti) ?ret2, pm1(?p2 \<mapsto> ?l))"
          by (rule step_ok_append)
        with coder False top None show ?thesis by (simp add: layers_step_def Let_def)
      next
        case (Some l)
        have "step_ok f ti ret (append_at l (LeafTensorInfo ti) ret1, pm1)"
          by (rule step_ok_append [OF inv1 ptrs_valid_lookup [OF inv1 Some] t1])
        with coder False top Some show ?thesis by (simp add: layers_step_def Let_def)
      qed
    qed
  qed
qed

lemma fold_layers_step:
  "ptrs_valid st \<Longrightarrow>
   tot (node_total f) (fst (fold layers_step tis st)) =
     add_opt (tot (node_total f) (fst st)) (tot f tis)"
proof (induction tis arbitrary: st)
  case Nil
  then show ?case by simp
next
  case (Cons ti tis)
  obtain ret pm where st: "st = (ret, pm)" by (cases st)
  from Cons.prems st have "step_ok f ti ret (layers_step ti st)"
    by (simp add: layers_step_ok)
  then have v: "ptrs_valid (layers_step ti st)"
    and t: "tot (node_total f) (fst (layers_step ti st)) =
      add_opt (tot (node_total f) ret) (f ti)"
    by (simp_all add: step_ok_def)
  from Cons.IH [OF v] t st show ?case by (simp add: add_opt_assoc)
qed

lemma tot_layers: "tot (node_total f) (layers tis) = tot f tis"
  using fold_layers_step [of "([], Map.empty)" f tis]
  by (simp add: layers_def ptrs_valid_def)

lemma Count_as_total:
  "node_total (\<lambda>ti. Some (GGUFTensorInfo_Count ti)) x = Some (node_Count x)"
  "list_total (\<lambda>ti. Some (GGUFTensorInfo_Count ti)) xs ret = Some (list_Count xs ret)"
  by (induction x and xs ret rule: node_Count_list_Count.induct) simp_all

lemma tot_Count: "tot (\<lambda>ti. Some (GGUFTensorInfo_Count ti)) tis = Some (of_nat (length tis))"
  by (induction tis) (simp_all add: GGUFTensorInfo_Count_def)

text \<open>
  C6. For every tensor list (and every trait table), \<open>Elements\<close>, \<open>Bytes\<close> and \<open>Count\<close> of
  the tree that \<open>layers\<close> builds are those of the flat list: each tensor is appended to
  exactly one node, and the sums over the nodes add up to the flat sums. A panic of one
  summand is a panic of both totals.
\<close>

theorem layers_totals_lossless:
  "GGUFLayerTensorInfos_Elements (layers tis) = GGUFTensorInfos_Elements tis \<and>
   GGUFLayerTensorInfos_Bytes trait (layers tis) = GGUFTensorInfos_Bytes trait tis \<and>
   GGUFLayerTensorInfos_Count (layers tis) = GGUFTensorInfos_Count tis"
proof (intro conjI)
  show "GGUFLayerTensorInfos_Elements (layers tis) = GGUFTensorInfos_Elements tis"
    by (simp add: GGUFLayerTensorInfos_Elements_def GGUFTensorInfos_Elements_def
        list_total_tot sum_loop_tot tot_layers)
  show "GGUFLayerTensorInfos_Bytes trait (layers tis) = GGUFTensorInfos_Bytes trait tis"
    by (simp add: GGUFLayerTensorInfos_Bytes_def GGUFTensorInfos_Bytes_def
        list_total_tot sum_loop_tot tot_layers)
  have "Some (GGUFLayerTensorInfos_Count (layers tis)) =
      list_total (\<lambda>ti. Some (GGUFTensorInfo_Count ti)) (layers tis) 0"
    by (simp add: GGUFLayerTensorInfos_Count_def Count_as_total)
  also have "\<dots> = Some (GGUFTensorInfos_Count tis)"
    by (simp add: list_total_tot tot_layers tot_Count GGUFTensorInfos_Count_def)
  finally show "GGUFLayerTensorInfos_Count (layers tis) = GGUFTensorInfos_Count tis" by simp
qed

theorem layers_totals_lossless_witness:
  "GGUFLayerTensorInfos_Elements (layers four_tensors) = Some 22 \<and>
   GGUFLayerTensorInfos_Bytes f32_trait (layers four_tensors) = Some 88 \<and>
   GGUFLayerTensorInfos_Count (layers four_tensors) = 4 \<and>
   layers four_tensors =
     [NamedTensorInfos ''blk.0''
        [LeafTensorInfo (f32_tensor ''blk.0.w'' [2, 3]),
         LeafTensorInfo (f32_tensor ''blk.0.v'' [4])],
      LeafTensorInfo (f32_tensor ''output.w'' [5]),
      NamedTensorInfos ''decoder''
        [NamedTensorInfos ''decoder.block.1''
           [LeafTensorInfo (f32_tensor ''decoder.block.1.w'' [7])]]]"
proof -
  have flat: "GGUFTensorInfos_Elements four_tensors = Some 22"
    "GGUFTensorInfos_Bytes f32_trait four_tensors = Some 88"
    "GGUFTensorInfos_Count four_tensors = 4"
    by code_simp+
  have tree: "layers four_tensors =
     [NamedTensorInfos ''blk.0''
        [LeafTensorInfo (f32_tensor ''blk.0.w'' [2, 3]),
         LeafTensorInfo (f32_tensor ''blk.0.v'' [4])],
      LeafTensorInfo (f32_tensor ''output.w'' [5]),
      NamedTensorInfos ''decoder''
        [NamedTensorInfos ''decoder.block.1''
           [LeafTensorInfo (f32_tensor ''decoder.block.1.w'' [7])]]]"
    by (simp add: layers_def layers_step_def Let_def f32_tensor_def four_tensors_def)
  from layers_totals_lossless [of four_tensors f32_trait] flat tree show ?thesis
    by simp
qed

section \<open>The depth of nested arrays is never exhausted\<close>

text \<open>
  Every successful read ends at or after its start and inside the file (\<open>good\<close>), and an
  array takes at least eight bytes before its first element. So a value that starts at
  \<open>pos\<close> is nested less than \<open>d\<close> deep when the file has fewer than \<open>8 * d\<close> bytes after
  \<open>pos\<close>, and the depth that \<open>ReadValue\<close> and \<open>ReadArray\<close> start with is never used up:
  \<open>NestingTooDeep\<close> is not a result of the decoder.
\<close>

lemma binary_Read_Inr:
  "binary_Read f bo n pos = Inr (w, pos') \<Longrightarrow> pos' = pos + n \<and> pos + n \<le> length f"
  by (auto simp: binary_Read_def read_full_def split: if_splits)

lemma binary_Read_Inl: "binary_Read f bo n pos = Inl e \<Longrightarrow> e = IOError"
  by (auto simp: binary_Read_def read_full_def split: if_splits)

lemma ReadLength_Inr:
  "ReadLength rd pos = Inr (l, pos') \<Longrightarrow> pos + 4 \<le> pos' \<and> pos' \<le> length (rd_f rd)"
  by (auto simp: ReadLength_def ReadUint64_def ReadUint64FromUint32_def ReadUint32_def
      split: if_splits sum.splits dest!: binary_Read_Inr)

lemma ReadLength_Inl: "ReadLength rd pos = Inl e \<Longrightarrow> e = IOError"
  by (auto simp: ReadLength_def ReadUint64_def ReadUint64FromUint32_def ReadUint32_def
      split: if_splits sum.splits dest!: binary_Read_Inl)

lemma ReadString_Inr:
  "ReadString rd pos = Inr (s, pos') \<Longrightarrow> pos \<le> pos' \<and> pos' \<le> length (rd_f rd)"
  by (auto simp: ReadString_def Read_upto_def Let_def split: sum.splits if_splits
      dest!: ReadLength_Inr)

lemma ReadString_Inl: "ReadString rd pos = Inl e \<Longrightarrow> e = IOError"
  by (auto simp: ReadString_def Read_upto_def Let_def split: sum.splits if_splits
      dest!: ReadLength_Inl)

lemma Seek_Inl: "Seek off pos = Inl e \<Longrightarrow> e = IOError"
  by (auto simp: Seek_def split: if_splits)

lemma SkipReadingString_Inl: "SkipReadingString rd pos = Inl e \<Longrightarrow> e = IOError"
  by (auto simp: SkipReadingString_def split: sum.splits dest!: ReadLength_Inl Seek_Inl)

lemma rmap_Inr: "rmap g r pos = Inr (y, pos') \<Longrightarrow> \<exists>x. r pos = Inr (x, pos')"
  by (auto simp: rmap_def split: sum.splits)

lemma rmap_Inl: "rmap g r pos = Inl e \<Longrightarrow> r pos = Inl e"
  by (auto simp: rmap_def split: sum.splits)

lemma good_rmap: "good f r \<Longrightarrow> good f (rmap g r)"
  unfolding good_def by (blast dest: rmap_Inr)

lemma good_binary_Read: "good f (binary_Read f bo n)"
  unfolding good_def by (auto dest!: binary_Read_Inr)

lemma good_ReadString: "good (rd_f rd) (ReadString rd)"
  unfolding good_def by (blast dest: ReadString_Inr)

lemma read_n_Inl: "read_n r n pos = Inl e \<Longrightarrow> \<exists>p. r p = Inl e"
  by (induction n arbitrary: pos) (auto split: sum.splits)

lemma read_n_good:
  "good f r \<Longrightarrow> pos \<le> length f \<Longrightarrow> read_n r n pos = Inr (xs, pos') \<Longrightarrow>
   pos \<le> pos' \<and> pos' \<le> length f"
proof (induction n arbitrary: pos xs)
  case 0
  then show ?case by simp
next
  case (Suc n)
  from Suc.prems(3) obtain x p1 ys where r: "r pos = Inr (x, p1)"
    and rest: "read_n r n p1 = Inr (ys, pos')"
    by (auto split: sum.splits)
  from Suc.prems(1) r have "pos \<le> p1" "p1 \<le> length f" by (auto simp: good_def)
  with Suc.IH [OF Suc.prems(1) _ rest] show ?case by simp
qed

lemma read_n_Inl_at:
  "good f r \<Longrightarrow> pos \<le> length f \<Longrightarrow> read_n r n pos = Inl e \<Longrightarrow>
   \<exists>p. pos \<le> p \<and> p \<le> length f \<and> r p = Inl e"
proof (induction n arbitrary: pos)
  case 0
  then show ?case by simp
next
  case (Suc n)
  show ?case
  proof (cases "r pos")
    case (Inl e')
    with Suc.prems show ?thesis by auto
  next
    case (Inr a)
    then obtain x p1 where r: "r pos = Inr (x, p1)" by (cases a) auto
    with Suc.prems(3) have rest: "read_n r n p1 = Inl e" by (auto split: sum.splits)
    from Suc.prems(1) r have b: "pos \<le> p1" "p1 \<le> length f" by (auto simp: good_def)
    from Suc.IH [OF Suc.prems(1) b(2) rest] obtain p
      where "p1 \<le> p" "p \<le> length f" "r p = Inl e" by blast
    with b(1) have "pos \<le> p \<and> p \<le> length f \<and> r p = Inl e" by simp
    then show ?thesis ..
  qed
qed

lemma rmap_Inl_iff: "rmap g r pos = Inl e \<longleftrightarrow> r pos = Inl e"
  by (auto simp: rmap_def split: sum.splits)

lemma binary_Read_not_deep: "binary_Read f bo n pos \<noteq> Inl NestingTooDeep"
  by (auto dest: binary_Read_Inl)

lemma ReadString_not_deep: "ReadString rd pos \<noteq> Inl NestingTooDeep"
  by (auto dest: ReadString_Inl)

lemma ReadValue_with_Inl_deep:
  "ReadValue_with ra rd vt pos = Inl NestingTooDeep \<Longrightarrow> ra pos = Inl NestingTooDeep"
  unfolding ReadValue_with_def ReadUint8_def ReadUint16_def ReadUint32_def ReadUint64_def
    ReadBool_def
  by (simp add: rmap_Inl_iff binary_Read_not_deep ReadString_not_deep split: if_splits)

lemma good_fail: "good f (\<lambda>pos. Inl e)"
  by (simp add: good_def)

lemma good_ReadValue_with: "good (rd_f rd) ra \<Longrightarrow> good (rd_f rd) (ReadValue_with ra rd vt)"
  unfolding ReadValue_with_def ReadUint8_def ReadUint16_def ReadUint32_def ReadUint64_def
    ReadBool_def
  by (simp add: good_rmap good_binary_Read good_ReadString good_fail)

lemma ReadUint32_Inr:
  "ReadUint32 rd pos = Inr (w, pos') \<Longrightarrow> pos' = pos + 4 \<and> pos + 4 \<le> length (rd_f rd)"
  by (auto simp: ReadUint32_def dest!: binary_Read_Inr)

lemma ReadUint32_not_deep: "ReadUint32 rd pos \<noteq> Inl NestingTooDeep"
  by (simp add: ReadUint32_def binary_Read_not_deep)

lemma ReadUint64_not_deep: "ReadUint64 rd pos \<noteq> Inl NestingTooDeep"
  by (simp add: ReadUint64_def binary_Read_not_deep)

lemma ReadLength_not_deep: "ReadLength rd pos \<noteq> Inl NestingTooDeep"
  by (auto dest: ReadLength_Inl)

lemma ReadArray_with_mat_cases:
  assumes "\<not> rd_SkipLargeMetadata rd"
  obtains (type_fails) e where "ReadUint32 rd pos = Inl e" "ReadArray_with rv rd pos = Inl e"
    | (length_fails) t e where "ReadUint32 rd pos = Inr (t, pos + 4)"
        "ReadLength rd (pos + 4) = Inl e" "ReadArray_with rv rd pos = Inl e"
    | (items) t n itemStart where "ReadUint32 rd pos = Inr (t, pos + 4)"
        "ReadLength rd (pos + 4) = Inr (n, itemStart)"
        "pos + 8 \<le> itemStart" "itemStart \<le> length (rd_f rd)"
        "ReadArray_with rv rd pos =
           (case read_n (rv t) (unat n) itemStart of
              Inl e \<Rightarrow> Inl e
            | Inr (items, itemEnd) \<Rightarrow>
                Inr (ArrayValue t n items (int pos) (int itemEnd - int itemStart), itemEnd))"
proof (cases "ReadUint32 rd pos")
  case (Inl e)
  then have "ReadArray_with rv rd pos = Inl e" by (simp add: ReadArray_with_def)
  with Inl show ?thesis by (rule type_fails)
next
  case (Inr a)
  then obtain t p1 where t: "ReadUint32 rd pos = Inr (t, p1)" by (cases a) auto
  then have p1: "p1 = pos + 4" by (auto dest: ReadUint32_Inr)
  show ?thesis
  proof (cases "ReadLength rd (pos + 4)")
    case (Inl e)
    with t p1 have "ReadArray_with rv rd pos = Inl e" by (simp add: ReadArray_with_def)
    with t p1 Inl show ?thesis by (auto intro: length_fails)
  next
    case (Inr b)
    then obtain n itemStart where n: "ReadLength rd (pos + 4) = Inr (n, itemStart)"
      by (cases b) auto
    then have b: "pos + 8 \<le> itemStart" "itemStart \<le> length (rd_f rd)"
      by (auto dest: ReadLength_Inr)
    from assms t p1 n have "ReadArray_with rv rd pos =
           (case read_n (rv t) (unat n) itemStart of
              Inl e \<Rightarrow> Inl e
            | Inr (items, itemEnd) \<Rightarrow>
                Inr (ArrayValue t n items (int pos) (int itemEnd - int itemStart), itemEnd))"
      by (simp add: ReadArray_with_def)
    with t p1 n b show ?thesis by (auto intro: items)
  qed
qed

lemma good_ReadArray_with:
  assumes mat: "\<not> rd_SkipLargeMetadata rd" and rv: "\<And>t. good (rd_f rd) (rv t)"
  shows "good (rd_f rd) (ReadArray_with rv rd)"
  unfolding good_def
proof (intro allI impI)
  fix pos a pos'
  assume r: "ReadArray_with rv rd pos = Inr (a, pos')"
  from mat show "pos \<le> pos' \<and> pos' \<le> length (rd_f rd)"
  proof (cases rule: ReadArray_with_mat_cases [of rd pos rv])
    case (type_fails e)
    with r show ?thesis by simp
  next
    case (length_fails t e)
    with r show ?thesis by simp
  next
    case (items t n itemStart)
    with r obtain xs where "read_n (rv t) (unat n) itemStart = Inr (xs, pos')"
      by (auto split: sum.splits)
    from read_n_good [OF rv items(4) this] items(3) show ?thesis by simp
  qed
qed

lemma ReadArray_with_deep_mat:
  assumes mat: "\<not> rd_SkipLargeMetadata rd" and rv: "\<And>t. good (rd_f rd) (rv t)"
    and deep: "ReadArray_with rv rd pos = Inl NestingTooDeep"
  shows "\<exists>t p. pos + 8 \<le> p \<and> p \<le> length (rd_f rd) \<and> rv t p = Inl NestingTooDeep"
  using mat
proof (cases rule: ReadArray_with_mat_cases [of rd pos rv])
  case (type_fails e)
  with deep show ?thesis by (simp add: ReadUint32_not_deep)
next
  case (length_fails t e)
  with deep show ?thesis by (simp add: ReadLength_not_deep)
next
  case (items t n itemStart)
  with deep have "read_n (rv t) (unat n) itemStart = Inl NestingTooDeep"
    by (auto split: sum.splits)
  from read_n_Inl_at [OF rv items(4) this] obtain p
    where "itemStart \<le> p" "p \<le> length (rd_f rd)" "rv t p = Inl NestingTooDeep" by blast
  with items(3) have "pos + 8 \<le> p \<and> p \<le> length (rd_f rd) \<and> rv t p = Inl NestingTooDeep"
    by simp
  then show ?thesis by blast
qed

lemma ReadArray_with_deep_skip:
  assumes "rd_SkipLargeMetadata rd"
  shows "ReadArray_with rv rd pos \<noteq> Inl NestingTooDeep"
proof
  assume deep: "ReadArray_with rv rd pos = Inl NestingTooDeep"
  have seek: "\<And>off p. Seek off p \<noteq> Inl NestingTooDeep" by (auto dest: Seek_Inl)
  have skips: "\<And>n p. rmap (\<lambda>_. ()) (read_n (SkipReadingString rd) n) p \<noteq> Inl NestingTooDeep"
    by (auto simp: rmap_Inl_iff dest!: read_n_Inl SkipReadingString_Inl)
  from deep assms show False
    unfolding ReadArray_with_def
    by (simp add: ReadUint32_not_deep ReadLength_not_deep seek skips
        split: sum.splits prod.splits if_splits)
qed

lemma good_ReadValue_depth:
  "\<not> rd_SkipLargeMetadata rd \<Longrightarrow> good (rd_f rd) (ReadValue_depth d rd vt)"
proof (induction d arbitrary: vt)
  case 0
  then show ?case by (simp add: good_ReadValue_with good_fail)
next
  case (Suc d)
  then show ?case by (simp add: good_ReadValue_with good_ReadArray_with)
qed

lemma ReadValue_depth_enough:
  "\<not> rd_SkipLargeMetadata rd \<Longrightarrow> pos \<le> length (rd_f rd) \<Longrightarrow>
   length (rd_f rd) < pos + 8 * d \<Longrightarrow> ReadValue_depth d rd vt pos \<noteq> Inl NestingTooDeep"
proof (induction d arbitrary: pos vt)
  case 0
  then show ?case by simp
next
  case (Suc d)
  show ?case
  proof
    assume "ReadValue_depth (Suc d) rd vt pos = Inl NestingTooDeep"
    then have "ReadArray_with (ReadValue_depth d rd) rd pos = Inl NestingTooDeep"
      by (simp add: ReadValue_with_Inl_deep)
    with Suc.prems(1) obtain t p where p: "pos + 8 \<le> p" "p \<le> length (rd_f rd)"
      and deep: "ReadValue_depth d rd t p = Inl NestingTooDeep"
      using ReadArray_with_deep_mat [of rd "ReadValue_depth d rd" pos]
      by (auto simp: good_ReadValue_depth)
    from p(1) Suc.prems(3) have "length (rd_f rd) < p + 8 * d" by simp
    with Suc.IH [OF Suc.prems(1) p(2)] deep show False by simp
  qed
qed

lemma ReadArray_not_deep: "ReadArray rd pos \<noteq> Inl NestingTooDeep"
proof (cases "rd_SkipLargeMetadata rd")
  case True
  then show ?thesis by (simp add: ReadArray_def ReadArray_with_deep_skip)
next
  case False
  show ?thesis
  proof
    assume "ReadArray rd pos = Inl NestingTooDeep"
    with False obtain t p where p: "pos + 8 \<le> p" "p \<le> length (rd_f rd)"
      and deep: "ReadValue_depth (length (rd_f rd)) rd t p = Inl NestingTooDeep"
      using ReadArray_with_deep_mat [of rd "ReadValue_depth (length (rd_f rd)) rd" pos]
      by (auto simp: ReadArray_def good_ReadValue_depth)
    from p have "length (rd_f rd) < p + 8 * length (rd_f rd)" by simp
    with ReadValue_depth_enough [OF False p(2)] deep show False by simp
  qed
qed

lemma ReadValue_not_deep: "ReadValue rd vt pos \<noteq> Inl NestingTooDeep"
proof
  assume "ReadValue rd vt pos = Inl NestingTooDeep"
  then have "ReadArray rd pos = Inl NestingTooDeep"
    by (simp add: ReadValue_def ReadArray_def ReadValue_with_Inl_deep)
  then show False by (simp add: ReadArray_not_deep)
qed

lemma GGUFMetadataReader_Read_not_deep:
  "GGUFMetadataReader_Read rd pos \<noteq> Inl NestingTooDeep"
  unfolding GGUFMetadataReader_Read_def
  by (auto simp: ReadString_not_deep ReadUint32_not_deep ReadValue_not_deep
      split: sum.splits prod.splits)

lemma GGUFTensorInfoReader_Read_not_deep:
  "GGUFTensorInfoReader_Read types rd pos \<noteq> Inl NestingTooDeep"
proof -
  have dims: "\<And>n p. read_n (ReadLength rd) n p \<noteq> Inl NestingTooDeep"
    by (auto dest!: read_n_Inl simp: ReadLength_not_deep)
  show ?thesis
    unfolding GGUFTensorInfoReader_Read_def
    by (auto simp: ReadString_not_deep ReadUint32_not_deep ReadUint64_not_deep dims
        split: sum.splits prod.splits option.splits)
qed

lemma decode_body_not_deep: "decode_body types s f skip magic bo pos \<noteq> Inl NestingTooDeep"
proof -
  have kvs: "\<And>rd n p. read_n (GGUFMetadataReader_Read rd) n p \<noteq> Inl NestingTooDeep"
    by (auto dest!: read_n_Inl simp: GGUFMetadataReader_Read_not_deep)
  have tis: "\<And>rd n p. read_n (GGUFTensorInfoReader_Read types rd) n p \<noteq> Inl NestingTooDeep"
    by (auto dest!: read_n_Inl simp: GGUFTensorInfoReader_Read_not_deep)
  have al: "\<And>kvs. alignment kvs \<noteq> Inl NestingTooDeep"
    by (auto simp: alignment_def ValueUint32_def split: option.splits GGUFValue.splits)
  have pad: "\<And>ag pds. padding ag pds \<noteq> Inl NestingTooDeep"
    by (auto simp: padding_def)
  show ?thesis
    unfolding decode_body_def Let_def
    by (auto simp: binary_Read_not_deep ReadLength_not_deep kvs tis al pad
        split: sum.splits prod.splits option.splits)
qed

lemma parseGGUFFile_not_deep: "parseGGUFFile types s f skip \<noteq> Inl NestingTooDeep"
  unfolding parseGGUFFile_def
  by (auto simp: binary_Read_not_deep decode_body_not_deep split: sum.splits prod.splits)

section \<open>Properties of the decoder\<close>

text \<open>Rules for evaluating the decoder on the bytes of a concrete file.\<close>

lemma ReadValue_depth_not_array:
  "vt \<noteq> GGUFMetadataValueTypeArray \<Longrightarrow>
   ReadValue_depth d rd vt = ReadValue_with (\<lambda>pos. Inl NestingTooDeep) rd vt"
  by (cases d) (simp_all add: ReadValue_with_def)

lemmas magic_defs = GGUFMagicGGML_def GGUFMagicGGMF_def GGUFMagicGGJT_def GGUFMagicGGUFLe_def
  GGUFMagicGGUFBe_def

lemmas reader_defs = ReadLength_def ReadUint64_def ReadUint32_def ReadUint16_def ReadUint8_def
  ReadUint64FromUint32_def GGUFVersionV1_def binary_Read_def read_full_def uint_of_def
  word_le_nat_alt Read_upto_def ReadString_def string_of_bytes_def rmap_def
  TrimSpace_def space_prefix_def space_suffix_def space_runes_def char_of_def bit_0

lemmas file_defs = parseGGUFFile_def decode_body_def magic_defs alignment_def padding_def
  GGUFMetadataKVs_Get_def GGUFMetadataReader_Read_def ReadValue_def ReadValue_with_def vt_defs
  GGUFTensorInfos_Elements_def

text \<open>
  The padding block gives a start offset \<open>S\<close> with \<open>S mod A = 0\<close> and \<open>P < S \<le> P + A\<close>: the
  padding is never 0, and it is a whole \<open>A\<close> when \<open>P\<close> is a multiple of \<open>A\<close> already.
\<close>

lemma padding_bounds:
  assumes "ag \<noteq> 0" "0 \<le> pds"
  shows "\<exists>pad. padding ag pds = Inr pad \<and> 0 < pad \<and> pad \<le> uint ag \<and>
           (pds + pad) mod uint ag = 0 \<and> (pad = uint ag \<longleftrightarrow> pds mod uint ag = 0)"
proof -
  from assms(1) have "uint ag \<noteq> 0" by (simp add: uint_0_iff)
  moreover have "0 \<le> uint ag" by simp
  ultimately have A: "0 < uint ag" by linarith
  have m: "0 \<le> pds mod uint ag" "pds mod uint ag < uint ag" using A by simp_all
  have "(pds + (uint ag - pds mod uint ag)) mod uint ag = 0"
    by (simp add: algebra_simps mod_simps)
  with assms(1) m show ?thesis by (auto simp: padding_def)
qed

text \<open>
  C1. The claim \<open>S - P < A\<close> fails where \<open>P\<close> is a multiple of \<open>A\<close>: the tensor infos of
  \<open>aligned_file\<close> end at \<open>P = 64\<close>, the alignment is the default 32, and the decoder gives
  the padding 32 and the start offset 96, not 64. With the file size 64 the model size
  \<open>uint64(s - 96)\<close> wraps around.
\<close>

theorem parseGGUFFile_aligned_file_pads_whole_alignment:
  "parseGGUFFile no_types 64 aligned_file False =
     Inr \<lparr>Header =
            \<lparr>Magic = GGUFMagicGGUFLe, Version = 3, TensorCount = 0, MetadataKVCount = 1,
             MetadataKV =
               [\<lparr>Key = ''general.name'', ValueType = GGUFMetadataValueTypeString,
                 Value = VString ''tinymodl''\<rparr>]\<rparr>,
          TensorInfos = [], Padding = 32, TensorDataStartOffset = 96,
          ModelSize = 0xFFFFFFFFFFFFFFE0, ModelParameters = 0\<rparr>"
  by (simp add: file_defs reader_defs ReadValue_depth_not_array aligned_file_def
      cong: prod.case_cong_weak let_weak_cong)

text \<open>
  C8. The decoder reads \<open>general.alignment\<close> with \<open>ValueUint32\<close>, which panics on every value
  type but \<open>uint32\<close>: a file that stores the alignment 32 as a \<open>uint64\<close> is not decoded, while
  \<open>ValueNumeric[uint32]\<close>, with which \<open>Model\<close> reads the same entry, gives 32.
\<close>

theorem parseGGUFFile_uint64_alignment_panics:
  "parseGGUFFile no_types 64 uint64_alignment_file False = Inl (Panic InvalidTypePanic) \<and>
   ValueNumeric of_f32 of_f64
     \<lparr>Key = ''general.alignment'', ValueType = GGUFMetadataValueTypeUint64,
      Value = VUint64 32\<rparr> = Inr (32 :: 32 word)"
  by (simp add: file_defs reader_defs ReadValue_depth_not_array uint64_alignment_file_def
      ValueUint32_def ValueNumeric_def
      cong: prod.case_cong_weak let_weak_cong)

text \<open>For the nine other numeric tags \<open>ValueNumeric\<close> converts the stored value.\<close>

lemma ValueNumeric_other_tags:
  "ValueNumeric of_f32 of_f64
     \<lparr>Key = k, ValueType = GGUFMetadataValueTypeUint8,
      Value = VUint8 a\<rparr> = Inr (ucast a)"
  "ValueNumeric of_f32 of_f64
     \<lparr>Key = k, ValueType = GGUFMetadataValueTypeInt8,
      Value = VInt8 a\<rparr> = Inr (scast a)"
  "ValueNumeric of_f32 of_f64
     \<lparr>Key = k, ValueType = GGUFMetadataValueTypeInt16,
      Value = VInt16 b\<rparr> = Inr (scast b)"
  "ValueNumeric of_f32 of_f64
     \<lparr>Key = k, ValueType = GGUFMetadataValueTypeUint32,
      Value = VUint32 c\<rparr> = Inr (ucast c)"
  "ValueNumeric of_f32 of_f64
     \<lparr>Key = k, ValueType = GGUFMetadataValueTypeInt32,
      Value = VInt32 c\<rparr> = Inr (scast c)"
  "ValueNumeric of_f32 of_f64
     \<lparr>Key = k, ValueType = GGUFMetadataValueTypeFloat32,
      Value = VFloat32 c\<rparr> = Inr (of_f32 c)"
  "ValueNumeric of_f32 of_f64
     \<lparr>Key = k, ValueType = GGUFMetadataValueTypeUint64,
      Value = VUint64 d\<rparr> = Inr (ucast d)"
  "ValueNumeric of_f32 of_f64
     \<lparr>Key = k, ValueType = GGUFMetadataValueTypeInt64,
      Value = VInt64 d\<rparr> = Inr (scast d)"
  "ValueNumeric of_f32 of_f64
     \<lparr>Key = k, ValueType = GGUFMetadataValueTypeFloat64,
      Value = VFloat64 d\<rparr> = Inr (of_f64 d)"
  by (simp_all add: ValueNumeric_def vt_defs)

text \<open>
  C5. For an entry of value type \<open>uint16\<close> that holds a \<open>uint16\<close>, \<open>ValueNumeric\<close> asserts the
  Go type \<open>int16\<close> and panics, whatever the value and the target type are.
\<close>

theorem ValueNumeric_uint16_panics:
  "ValueNumeric of_f32 of_f64
     \<lparr>Key = k, ValueType = GGUFMetadataValueTypeUint16, Value = VUint16 v\<rparr> =
   Inl (Panic TypeAssertion)"
  by (simp add: ValueNumeric_def vt_defs)



section \<open>The two modes of reading an array\<close>

lemma binary_Read_ok:
  "pos + n \<le> length f \<Longrightarrow>
   binary_Read f bo n pos = Inr (word_of_nat (uint_of bo (take n (drop pos f))), pos + n)"
  by (simp add: binary_Read_def read_full_def)

lemma sint_small:
  fixes l :: "64 word"
  assumes "unat l < 2 ^ 63"
  shows "sint l = int (unat l)"
proof -
  have u: "uint l = int (unat l)" by simp
  from assms have "int (unat l) < 2 ^ 63" by (simp only: of_nat_less_numeral_power_cancel_iff)
  with u have "uint l < 2 ^ 63" by simp
  moreover have "- (2 ^ 63) \<le> uint l" by (rule order_trans [of _ 0]) simp_all
  ultimately have "signed_take_bit 63 (uint l) = uint l"
    by (intro signed_take_bit_int_eq_self) simp_all
  with u show ?thesis by (simp add: sint_uint)
qed

lemma Seek_forward:
  fixes l :: "64 word"
  assumes "unat l < 2 ^ 63"
  shows "Seek (sint l) pos = Inr ((), pos + unat l)"
proof -
  have "nat (int pos + int (unat l)) = pos + unat l" by (simp add: nat_add_distrib)
  moreover have "0 \<le> int pos + int (unat l)" by (rule add_nonneg_nonneg) simp_all
  then have "\<not> int pos + int (unat l) < 0" by (simp only: not_less)
  ultimately show ?thesis unfolding Seek_def sint_small [OF assms] by (simp only: if_False)
qed

lemma unat_times:
  fixes n :: "64 word"
  assumes "unat n * w < 2 ^ 63" "w < 2 ^ 64"
  shows "unat (n * of_nat w) = unat n * w"
proof -
  from assms(2) have w: "unat (of_nat w :: 64 word) = w" by (simp add: unat_of_nat)
  from assms(1) have "unat n * w < 2 ^ 64" by (rule less_trans) simp
  with w have "unat n * unat (of_nat w :: 64 word) < 2 ^ LENGTH(64)" by simp
  then have "unat (n * of_nat w) = unat n * unat (of_nat w :: 64 word)"
    by (simp only: unat_mult_lem)
  with w show ?thesis by simp
qed

lemma Seek_items:
  fixes n :: "64 word"
  assumes "unat n * w < 2 ^ 63" "w < 2 ^ 64"
  shows "Seek (sint (n * of_nat w)) pos = Inr ((), pos + unat n * w)"
  using Seek_forward [of "n * of_nat w" pos] unat_times [OF assms] assms(1) by simp

lemma read_n_fixed:
  assumes "\<And>p. p + w \<le> m \<Longrightarrow> \<exists>v. r p = Inr (v, p + w)"
  shows "pos + k * w \<le> m \<Longrightarrow> \<exists>xs. read_n r k pos = Inr (xs, pos + k * w)"
proof (induction k arbitrary: pos)
  case 0
  then show ?case by simp
next
  case (Suc k)
  then have "pos + w \<le> m" by simp
  from assms [OF this] obtain v where v: "r pos = Inr (v, pos + w)" ..
  from Suc.prems have "(pos + w) + k * w \<le> m" by simp
  from Suc.IH [OF this] obtain xs where "read_n r k (pos + w) = Inr (xs, pos + w + k * w)" ..
  with v show ?case by (simp add: add.assoc)
qed

lemma ReadString_complete:
  assumes "ReadLength rd pos = Inr (l, pos1)" "pos1 + unat l \<le> length (rd_f rd)"
  shows "\<exists>s. ReadString rd pos = Inr (s, pos1 + unat l)"
  using assms by (auto simp: ReadString_def Read_upto_def Let_def)

lemma SkipReadingString_complete:
  assumes "ReadLength rd pos = Inr (l, pos1)" "pos1 + unat l \<le> length (rd_f rd)"
    "length (rd_f rd) < 2 ^ 63"
  shows "SkipReadingString rd pos = Inr ((), pos1 + unat l)"
proof -
  from assms(2,3) have "unat l < 2 ^ 63" by simp
  with assms(1) show ?thesis by (simp add: SkipReadingString_def Seek_forward)
qed

lemma read_n_strings:
  assumes "\<And>p l p1. ReadLength rd p = Inr (l, p1) \<Longrightarrow> p1 + unat l \<le> length (rd_f rd) \<Longrightarrow>
     \<exists>v. r p = Inr (v, p1 + unat l)"
  shows "strings_end rd k pos = Some e \<Longrightarrow> \<exists>xs. read_n r k pos = Inr (xs, e)"
proof (induction k arbitrary: pos)
  case 0
  then show ?case by simp
next
  case (Suc k)
  from Suc.prems obtain l p1 where l: "ReadLength rd pos = Inr (l, p1)"
    and c: "p1 + unat l \<le> length (rd_f rd)" and rest: "strings_end rd k (p1 + unat l) = Some e"
    by (auto split: sum.splits if_splits)
  from assms [OF l c] obtain v where v: "r pos = Inr (v, p1 + unat l)" ..
  from Suc.IH [OF rest] obtain xs where "read_n r k (p1 + unat l) = Inr (xs, e)" ..
  with v show ?case by simp
qed

lemma fixed_width_cases:
  assumes "fixed_width t = Some w"
  obtains "w = 1" "t = GGUFMetadataValueTypeUint8 \<or> t = GGUFMetadataValueTypeInt8 \<or>
      t = GGUFMetadataValueTypeBool"
    | "w = 2" "t = GGUFMetadataValueTypeUint16 \<or> t = GGUFMetadataValueTypeInt16"
    | "w = 4" "t = GGUFMetadataValueTypeUint32 \<or> t = GGUFMetadataValueTypeInt32 \<or>
      t = GGUFMetadataValueTypeFloat32"
    | "w = 8" "t = GGUFMetadataValueTypeUint64 \<or> t = GGUFMetadataValueTypeInt64 \<or>
      t = GGUFMetadataValueTypeFloat64"
  using assms unfolding fixed_width_def by (auto split: if_splits)

lemma ReadValue_depth_fixed:
  assumes fw: "fixed_width t = Some w" and le: "p + w \<le> length (rd_f rd)"
  shows "\<exists>v. ReadValue_depth d rd t p = Inr (v, p + w)"
proof -
  have r: "\<And>n. p + n \<le> length (rd_f rd) \<Longrightarrow>
      \<exists>x. binary_Read (rd_f rd) (rd_bo rd) n p = Inr (x :: 'a::len word, p + n)"
    by (simp add: binary_Read_ok)
  from fw show ?thesis
  proof (cases rule: fixed_width_cases)
    case 1
    with le obtain x :: "8 word" where x: "ReadUint8 rd p = Inr (x, p + w)"
      using r [of 1] by (auto simp: ReadUint8_def)
    from 1(2) show ?thesis
      by (auto simp: ReadValue_depth_not_array ReadValue_with_def vt_defs word_le_nat_alt ReadBool_def
          rmap_def x)
  next
    case 2
    with le obtain x :: "16 word" where x: "ReadUint16 rd p = Inr (x, p + w)"
      using r [of 2] by (auto simp: ReadUint16_def)
    from 2(2) show ?thesis
      by (auto simp: ReadValue_depth_not_array ReadValue_with_def vt_defs word_le_nat_alt rmap_def x)
  next
    case 3
    with le obtain x :: "32 word" where x: "ReadUint32 rd p = Inr (x, p + w)"
      using r [of 4] by (auto simp: ReadUint32_def)
    from 3(2) show ?thesis
      by (auto simp: ReadValue_depth_not_array ReadValue_with_def vt_defs word_le_nat_alt rmap_def x)
  next
    case 4
    with le obtain x :: "64 word" where x: "ReadUint64 rd p = Inr (x, p + w)"
      using r [of 8] by (auto simp: ReadUint64_def)
    from 4(2) show ?thesis
      by (auto simp: ReadValue_depth_not_array ReadValue_with_def vt_defs word_le_nat_alt rmap_def x)
  qed
qed

lemma ReadValue_depth_string:
  assumes "ReadLength rd p = Inr (l, p1)" "p1 + unat l \<le> length (rd_f rd)"
  shows "\<exists>v. ReadValue_depth d rd GGUFMetadataValueTypeString p = Inr (v, p1 + unat l)"
proof -
  from ReadString_complete [OF assms] obtain s where "ReadString rd p = Inr (s, p1 + unat l)" ..
  then have "rmap VString (ReadString rd) p = Inr (VString s, p1 + unat l)"
    by (simp add: rmap_def)
  then show ?thesis
    by (simp add: ReadValue_depth_not_array ReadValue_with_def vt_defs word_le_nat_alt)
qed

lemma skip_fixed:
  fixes n :: "64 word"
  assumes fw: "fixed_width t = Some w" and le: "itemStart + unat n * w \<le> m" and m: "m < 2 ^ 63"
  shows
    "(if t = GGUFMetadataValueTypeUint8 \<or> t = GGUFMetadataValueTypeInt8 \<or>
         t = GGUFMetadataValueTypeBool
      then Seek (sint n) itemStart
      else if t = GGUFMetadataValueTypeUint16 \<or> t = GGUFMetadataValueTypeInt16
      then Seek (sint (n * 2)) itemStart
      else if t = GGUFMetadataValueTypeUint32 \<or> t = GGUFMetadataValueTypeInt32 \<or>
         t = GGUFMetadataValueTypeFloat32
      then Seek (sint (n * 4)) itemStart
      else if t = GGUFMetadataValueTypeUint64 \<or> t = GGUFMetadataValueTypeInt64 \<or>
         t = GGUFMetadataValueTypeFloat64
      then Seek (sint (n * 8)) itemStart
      else if t = GGUFMetadataValueTypeString
      then rmap (\<lambda>_. ()) (read_n (SkipReadingString rd) (unat n)) itemStart
      else Inl (Panic InvalidTypePanic)) = Inr ((), itemStart + unat n * w)"
proof -
  from le m have small: "unat n * w < 2 ^ 63" by simp
  have s: "\<And>k. k < 2 ^ 64 \<Longrightarrow> unat n * k < 2 ^ 63 \<Longrightarrow>
      Seek (sint (n * of_nat k)) itemStart = Inr ((), itemStart + unat n * k)"
    by (rule Seek_items)
  from fw show ?thesis
  proof (cases rule: fixed_width_cases)
    case 1
    with small s [of 1] show ?thesis by (auto simp: vt_defs)
  next
    case 2
    with small s [of 2] show ?thesis by (auto simp: vt_defs)
  next
    case 3
    with small s [of 4] show ?thesis by (auto simp: vt_defs)
  next
    case 4
    with small s [of 8] show ?thesis by (auto simp: vt_defs)
  qed
qed

lemma flag_free [simp]:
  "ReadUint32 (rd\<lparr>rd_SkipLargeMetadata := b\<rparr>) = ReadUint32 rd"
  "ReadLength (rd\<lparr>rd_SkipLargeMetadata := b\<rparr>) = ReadLength rd"
  by (simp_all add: ReadUint32_def ReadLength_def ReadUint64_def ReadUint64FromUint32_def
      fun_eq_iff)

lemma items_end_cases:
  assumes "items_end rd t n itemStart = Some itemEnd"
  obtains (fixed) w where "fixed_width t = Some w"
      "itemStart + unat n * w \<le> length (rd_f rd)" "itemEnd = itemStart + unat n * w"
    | (strings) "fixed_width t = None" "t = GGUFMetadataValueTypeString"
      "strings_end rd (unat n) itemStart = Some itemEnd"
  using assms unfolding items_end_def by (auto split: option.splits if_splits)

lemma fixed_width_String: "fixed_width GGUFMetadataValueTypeString = None"
  by (simp add: fixed_width_def vt_defs)

text \<open>
  The two modes of \<open>ReadArray\<close> agree on every array whose element type has a fixed width or
  is the string type, when the file is shorter than \<open>2 ^ 63\<close> bytes and holds the whole
  payload: both succeed with the same \<open>StartOffset\<close>, \<open>Type\<close>, \<open>Len\<close> and \<open>Size\<close>, and leave
  the cursor at the end of the payload.
\<close>

lemma ReadArray_modes_agree:
  assumes len: "length (rd_f rd) < 2 ^ 63"
    and type: "ReadUint32 rd pos = Inr (t, pos1)"
    and count: "ReadLength rd pos1 = Inr (n, itemStart)"
    and wf: "items_end rd t n itemStart = Some itemEnd"
  shows "\<exists>items.
      ReadArray (rd\<lparr>rd_SkipLargeMetadata := False\<rparr>) pos =
        Inr (ArrayValue t n items (int pos) (int itemEnd - int itemStart), itemEnd) \<and>
      ReadArray (rd\<lparr>rd_SkipLargeMetadata := True\<rparr>) pos =
        Inr (ArrayValue t n [] (int pos) (int itemEnd - int itemStart), itemEnd)"
proof -
  let ?mat = "rd\<lparr>rd_SkipLargeMetadata := False\<rparr>"
  let ?skp = "rd\<lparr>rd_SkipLargeMetadata := True\<rparr>"
  let ?rv = "ReadValue_depth (length (rd_f rd)) ?mat"
  have mat: "\<exists>items. read_n (?rv t) (unat n) itemStart = Inr (items, itemEnd)"
    using wf
  proof (cases rule: items_end_cases)
    case (fixed w)
    have "\<And>p. p + w \<le> length (rd_f rd) \<Longrightarrow> \<exists>v. ?rv t p = Inr (v, p + w)"
      using ReadValue_depth_fixed [OF fixed(1), of _ ?mat] by simp
    from read_n_fixed [of w "length (rd_f rd)" "?rv t", OF this fixed(2)] fixed(3)
    show ?thesis by simp
  next
    case strings
    have "\<And>p l p1. ReadLength rd p = Inr (l, p1) \<Longrightarrow> p1 + unat l \<le> length (rd_f rd) \<Longrightarrow>
        \<exists>v. ?rv t p = Inr (v, p1 + unat l)"
      using ReadValue_depth_string [of ?mat] strings(2) by simp
    from read_n_strings [of rd "?rv t", OF this strings(3)] show ?thesis by simp
  qed
  have skp:
    "(if t = GGUFMetadataValueTypeUint8 \<or> t = GGUFMetadataValueTypeInt8 \<or>
         t = GGUFMetadataValueTypeBool
      then Seek (sint n) itemStart
      else if t = GGUFMetadataValueTypeUint16 \<or> t = GGUFMetadataValueTypeInt16
      then Seek (sint (n * 2)) itemStart
      else if t = GGUFMetadataValueTypeUint32 \<or> t = GGUFMetadataValueTypeInt32 \<or>
         t = GGUFMetadataValueTypeFloat32
      then Seek (sint (n * 4)) itemStart
      else if t = GGUFMetadataValueTypeUint64 \<or> t = GGUFMetadataValueTypeInt64 \<or>
         t = GGUFMetadataValueTypeFloat64
      then Seek (sint (n * 8)) itemStart
      else if t = GGUFMetadataValueTypeString
      then rmap (\<lambda>_. ()) (read_n (SkipReadingString ?skp) (unat n)) itemStart
      else Inl (Panic InvalidTypePanic)) = Inr ((), itemEnd)"
    using wf
  proof (cases rule: items_end_cases)
    case (fixed w)
    from skip_fixed [OF fixed(1,2) len, of ?skp] fixed(3) show ?thesis by simp
  next
    case strings
    have "\<And>p l p1. ReadLength rd p = Inr (l, p1) \<Longrightarrow> p1 + unat l \<le> length (rd_f rd) \<Longrightarrow>
        \<exists>v. SkipReadingString ?skp p = Inr (v, p1 + unat l)"
      using SkipReadingString_complete [of ?skp] len by simp
    from read_n_strings [of rd "SkipReadingString ?skp", OF this strings(3)]
    obtain us where "read_n (SkipReadingString ?skp) (unat n) itemStart = Inr (us, itemEnd)" ..
    then have "rmap (\<lambda>_. ()) (read_n (SkipReadingString ?skp) (unat n)) itemStart =
        Inr ((), itemEnd)"
      by (simp add: rmap_def)
    with strings(2) show ?thesis by (simp add: vt_defs)
  qed
  from mat obtain items where items: "read_n (?rv t) (unat n) itemStart = Inr (items, itemEnd)" ..
  have "ReadArray ?mat pos =
      Inr (ArrayValue t n items (int pos) (int itemEnd - int itemStart), itemEnd)"
    unfolding ReadArray_def ReadArray_with_def by (simp add: type count items)
  moreover have "ReadArray ?skp pos =
      Inr (ArrayValue t n [] (int pos) (int itemEnd - int itemStart), itemEnd)"
    unfolding ReadArray_def ReadArray_with_def by (simp add: type count skp)
  ultimately show ?thesis by blast
qed

text \<open>
  C4. For an array whose elements are arrays the two modes differ: on the twelve bytes of an
  empty array of arrays, reading with materialization gives the array value with size 0 and
  the cursor at 12, while the skip mode reaches the \<open>default\<close> case of its \<open>switch\<close> and
  panics. For the other recognized element types the modes agree, as shown above.
\<close>

theorem ReadArray_of_arrays_skip_panics:
  "ReadArray \<lparr>rd_v = 3, rd_SkipLargeMetadata = False, rd_f = empty_array_of_arrays,
       rd_bo = LittleEndian\<rparr> 0 =
     Inr (ArrayValue GGUFMetadataValueTypeArray 0 [] 0 0, 12) \<and>
   ReadArray \<lparr>rd_v = 3, rd_SkipLargeMetadata = True, rd_f = empty_array_of_arrays,
       rd_bo = LittleEndian\<rparr> 0 =
     Inl (Panic InvalidTypePanic)"
  by (simp add: ReadArray_def ReadArray_with_def reader_defs vt_defs empty_array_of_arrays_def
      cong: prod.case_cong_weak let_weak_cong)

end
